theory Spec2Isabelle
  imports Complex_Main "HOL-Library.Sublist"
begin

section \<open>The platform: strings, numbers and dates of the host language\<close>

text \<open>
  The plugin is TypeScript. Its strings are modelled as \<open>string\<close> (code units below 256),
  its integer-valued numbers as \<open>int\<close>, and the not-a-number value as \<open>None\<close> or \<open>NaN\<close>.
  Numbers are exact: rounding of values beyond \<open>2 ^ 53\<close> is outside the model.
\<close>

subsection \<open>Number() and parseInt() on strings\<close>

datatype jsnum = NaN | PosInf | NegInf | Fin rat

definition isWhiteSpace :: "char \<Rightarrow> bool" where
  "isWhiteSpace c \<longleftrightarrow> (of_char c :: nat) \<in> {9, 10, 11, 12, 13, 32, 160}"

definition digitVal :: "char \<Rightarrow> nat option" where
  "digitVal c =
     (let n = (of_char c :: nat) in
      if 48 \<le> n \<and> n \<le> 57 then Some (n - 48)
      else if 97 \<le> n \<and> n \<le> 122 then Some (n - 87)
      else if 65 \<le> n \<and> n \<le> 90 then Some (n - 55)
      else None)"

definition isDigit :: "nat \<Rightarrow> char \<Rightarrow> bool" where
  "isDigit radix c = (case digitVal c of Some d \<Rightarrow> d < radix | None \<Rightarrow> False)"

definition digitsVal :: "nat \<Rightarrow> string \<Rightarrow> nat" where
  "digitsVal radix ds =
     foldl (\<lambda>a c. a * radix + (case digitVal c of Some d \<Rightarrow> d | None \<Rightarrow> 0)) 0 ds"

definition trim :: "string \<Rightarrow> string" where
  "trim s = rev (dropWhile isWhiteSpace (rev (dropWhile isWhiteSpace s)))"

text \<open>\<open>parseInt(str)\<close> with no radix: leading white space, a sign, a \<open>0x\<close> prefix, then
  the longest run of digits; \<open>None\<close> is NaN.\<close>

definition parseInt :: "string \<Rightarrow> int option" where
  "parseInt str =
     (let s = dropWhile isWhiteSpace str;
          sg = (case s of c # r \<Rightarrow> if c = CHR ''-'' then (-1 :: int) else 1 | [] \<Rightarrow> 1);
          s1 = (case s of c # r \<Rightarrow> if c = CHR ''-'' \<or> c = CHR ''+'' then r else s | [] \<Rightarrow> s);
          hex = (case s1 of a # b # r \<Rightarrow> a = CHR ''0'' \<and> (b = CHR ''x'' \<or> b = CHR ''X'')
                 | _ \<Rightarrow> False);
          R = (if hex then 16 else 10);
          s2 = (if hex then drop 2 s1 else s1);
          z = takeWhile (isDigit R) s2
      in if z = [] then None else Some (sg * int (digitsVal R z)))"

definition isNaN :: "int option \<Rightarrow> bool" where
  "isNaN n \<longleftrightarrow> n = None"

text \<open>The exponent part of a decimal literal; the whole rest of the string must be one.\<close>

definition ExponentPart :: "string \<Rightarrow> int option" where
  "ExponentPart s =
     (case s of
        [] \<Rightarrow> Some 0
      | c # r \<Rightarrow>
          if c = CHR ''e'' \<or> c = CHR ''E'' then
            (let sg = (case r of x # r' \<Rightarrow> if x = CHR ''-'' then (-1 :: int) else 1 | [] \<Rightarrow> 1);
                 d = (case r of x # r' \<Rightarrow> if x = CHR ''-'' \<or> x = CHR ''+'' then r' else r
                      | [] \<Rightarrow> r)
             in if d \<noteq> [] \<and> list_all (isDigit 10) d then Some (sg * int (digitsVal 10 d))
                else None)
          else None)"

definition StrUnsignedDecimalLiteral :: "string \<Rightarrow> rat option" where
  "StrUnsignedDecimalLiteral s =
     (let ip = takeWhile (isDigit 10) s;
          r1 = dropWhile (isDigit 10) s;
          dot = (case r1 of c # r \<Rightarrow> c = CHR ''.'' | [] \<Rightarrow> False);
          fp = (if dot then takeWhile (isDigit 10) (tl r1) else []);
          r2 = (if dot then dropWhile (isDigit 10) (tl r1) else r1)
      in if ip = [] \<and> fp = [] then None
         else (case ExponentPart r2 of
                 None \<Rightarrow> None
               | Some ex \<Rightarrow>
                   (let m = of_nat (digitsVal 10 (ip @ fp)) :: rat;
                        k = ex - int (length fp)
                    in Some (if 0 \<le> k then m * 10 ^ nat k else m / 10 ^ nat (- k)))))"

definition NonDecimalIntegerLiteral :: "string \<Rightarrow> rat option" where
  "NonDecimalIntegerLiteral s =
     (case s of
        a # b # r \<Rightarrow>
          (let R = (if b = CHR ''x'' \<or> b = CHR ''X'' then 16
                    else if b = CHR ''o'' \<or> b = CHR ''O'' then 8
                    else if b = CHR ''b'' \<or> b = CHR ''B'' then 2 else 0)
           in if a = CHR ''0'' \<and> R \<noteq> 0 \<and> r \<noteq> [] \<and> list_all (isDigit R) r
              then Some (of_nat (digitsVal R r)) else None)
      | _ \<Rightarrow> None)"

text \<open>\<open>Number(str)\<close>: the whole trimmed string must be a numeric literal; the empty string
  is \<open>0\<close>.\<close>

definition Number_js :: "string \<Rightarrow> jsnum" where
  "Number_js str =
     (let t = trim str in
      if t = [] then Fin 0
      else (case NonDecimalIntegerLiteral t of
              Some n \<Rightarrow> Fin n
            | None \<Rightarrow>
                (let neg = (hd t = CHR ''-'');
                     u = (if hd t = CHR ''-'' \<or> hd t = CHR ''+'' then tl t else t)
                 in if u = ''Infinity'' then (if neg then NegInf else PosInf)
                    else (case StrUnsignedDecimalLiteral u of
                            None \<Rightarrow> NaN
                          | Some q \<Rightarrow> Fin (if neg then - q else q)))))"

text \<open>\<open>str.split(sep)\<close> for a one-character separator; the empty string gives one empty
  part.\<close>

fun split_js :: "char \<Rightarrow> string \<Rightarrow> string list" where
  "split_js sep [] = [[]]"
| "split_js sep (c # cs) =
     (if c = sep then [] # split_js sep cs
      else (case split_js sep cs of p # ps \<Rightarrow> (c # p) # ps | [] \<Rightarrow> [[c]]))"

text \<open>Decimal rendering of an integer-valued number, and \<open>padStart(2, '0')\<close>.\<close>

fun natToString :: "nat \<Rightarrow> string" where
  "natToString n =
     (if n < 10 then [char_of (48 + n)]
      else natToString (n div 10) @ [char_of (48 + n mod 10)])"

declare natToString.simps [simp del]

definition numToString :: "int option \<Rightarrow> string" where
  "numToString v =
     (case v of
        None \<Rightarrow> ''NaN''
      | Some i \<Rightarrow> if i < 0 then CHR ''-'' # natToString (nat (- i)) else natToString (nat i))"

definition padStart2 :: "string \<Rightarrow> string" where
  "padStart2 s = replicate (2 - length s) CHR ''0'' @ s"

text \<open>The remainder operator \<open>%\<close> truncates towards zero; \<open>Math.floor(a / b)\<close> is \<open>div\<close>.\<close>

definition js_rem :: "int \<Rightarrow> int \<Rightarrow> int" where
  "js_rem a b = sgn a * (\<bar>a\<bar> mod \<bar>b\<bar>)"

subsection \<open>Date\<close>

text \<open>
  A \<open>Date\<close> is its time value: \<open>Some t\<close>, the milliseconds of local time since the epoch,
  or \<open>None\<close> for an invalid date. In this first part local time runs at one offset and a
  \<open>Date\<close> has no limit of range. The \<open>Date\<close> of the language standard, with its time zone and
  its range, follows in the second part.
\<close>

definition msPerMinute :: int where "msPerMinute = 60000"
definition msPerHour :: int where "msPerHour = 3600000"
definition msPerDay :: int where "msPerDay = 86400000"

definition toInteger :: "rat \<Rightarrow> int" where
  "toInteger q = (if 0 \<le> q then \<lfloor>q\<rfloor> else \<lceil>q\<rceil>)"

definition getHours :: "int option \<Rightarrow> int option" where
  "getHours d = map_option (\<lambda>t. (t div msPerHour) mod 24) d"

definition getMinutes :: "int option \<Rightarrow> int option" where
  "getMinutes d = map_option (\<lambda>t. (t div msPerMinute) mod 60) d"

fun setHours :: "int option \<Rightarrow> jsnum \<Rightarrow> int option" where
  "setHours (Some t) (Fin h) =
     Some ((t div msPerDay) * msPerDay + toInteger h * msPerHour + t mod msPerHour)"
| "setHours _ _ = None"

fun setMinutes :: "int option \<Rightarrow> jsnum \<Rightarrow> int option" where
  "setMinutes (Some t) (Fin m) =
     Some ((t div msPerHour) * msPerHour + toInteger m * msPerMinute + t mod msPerMinute)"
| "setMinutes _ _ = None"

section \<open>The plan generator\<close>

record PomodoroSettings =
  pomodoro :: int
  shortBreak :: int
  longBreak :: int
  group :: int
  includeStats :: bool
  includeShortBreak :: bool
  includeLongBreak :: bool

definition DEFAULT_SETTINGS :: PomodoroSettings where
  "DEFAULT_SETTINGS =
     \<lparr>pomodoro = 25, shortBreak = 5, longBreak = 15, group = 4, includeStats = True,
      includeShortBreak = False, includeLongBreak = True\<rparr>"

datatype endTimeOrCount = Count int | Time "int option"

fun willContinue :: "int option \<Rightarrow> int \<Rightarrow> endTimeOrCount \<Rightarrow> bool" where
  "willContinue currentTime totalPomodoros (Count n) = (totalPomodoros \<le> n)"
| "willContinue (Some t) totalPomodoros (Time (Some e)) = (t \<le> e)"
| "willContinue currentTime totalPomodoros (Time e) = False"

text \<open>\<open>parseTime\<close> takes the reading of the clock that its \<open>new Date()\<close> makes.\<close>

definition parseTime :: "int \<Rightarrow> string \<Rightarrow> int option" where
  "parseTime clock time =
     (let parts = map Number_js (split_js CHR '':'' time);
          hours = (case parts of h # r \<Rightarrow> h | [] \<Rightarrow> NaN);
          minutes = (case parts of h # m # r \<Rightarrow> m | _ \<Rightarrow> NaN);
          now = Some clock
      in setMinutes (setHours now hours) minutes)"

text \<open>\<open>parseTimeOrCount\<close> returns its value and the notices it raised; an undefined
  string is \<open>None\<close>.\<close>

definition parseTimeOrCount :: "int \<Rightarrow> string option \<Rightarrow> endTimeOrCount \<times> string list" where
  "parseTimeOrCount clock timeOrCount =
     (case timeOrCount of
        None \<Rightarrow> (Count 0, [])
      | Some s \<Rightarrow>
          if s = [] then (Count 0, [])
          else (let time = parseTime clock s in
                if time \<noteq> None then (Time time, [])
                else (let count = parseInt s in
                      if \<not> isNaN count then (Count (case count of Some c \<Rightarrow> c | None \<Rightarrow> 0), [])
                      else (Count 0, [''Invalid time or count format'']))))"

definition addMinutes :: "int option \<Rightarrow> int \<Rightarrow> int option" where
  "addMinutes time minutes =
     (case getMinutes time of
        None \<Rightarrow> None
      | Some m \<Rightarrow> setMinutes time (Fin (of_int (m + minutes))))"

definition formatTime :: "int option \<Rightarrow> string" where
  "formatTime time =
     padStart2 (numToString (getHours time)) @ '':'' @ padStart2 (numToString (getMinutes time))"

subsection \<open>The loop of generatePomodoroPlan\<close>

text \<open>
  The loop appends to \<open>this.resultMarkdown\<close> one piece at a time; the state keeps the
  pieces in order (\<open>planLines\<close>), and the text is their concatenation.
\<close>

record loop_state =
  currentTime :: "int option"
  groupCount :: int
  totalRestTime :: int
  pomodoroCount :: int
  planLines :: "string list"

definition newline :: string where
  "newline = [CHR 0x0A]"

definition pomodoroLine :: "PomodoroSettings \<Rightarrow> loop_state \<Rightarrow> string" where
  "pomodoroLine cfg s =
     ''- [ ] '' @ formatTime (currentTime s) @ '' - ''
       @ formatTime (addMinutes (currentTime s) (pomodoro cfg))
       @ '' Pomodoro #'' @ numToString (Some (pomodoroCount s)) @ newline"

definition longBreakLine :: "PomodoroSettings \<Rightarrow> loop_state \<Rightarrow> string" where
  "longBreakLine cfg s =
     ''- [ ] '' @ formatTime (currentTime s) @ '' - ''
       @ formatTime (addMinutes (currentTime s) (longBreak cfg)) @ '' Long Break'' @ newline"

definition shortBreakLine :: "PomodoroSettings \<Rightarrow> loop_state \<Rightarrow> string" where
  "shortBreakLine cfg s =
     ''- [ ] '' @ formatTime (currentTime s) @ '' - ''
       @ formatTime (addMinutes (currentTime s) (shortBreak cfg)) @ '' Short Break'' @ newline"

text \<open>Lines 100 to 104: the pomodoro is written and the clock and counters advance.\<close>

definition workStep :: "PomodoroSettings \<Rightarrow> loop_state \<Rightarrow> loop_state" where
  "workStep cfg s =
     s\<lparr>planLines := planLines s @ [pomodoroLine cfg s],
       currentTime := addMinutes (currentTime s) (pomodoro cfg),
       pomodoroCount := pomodoroCount s + 1,
       groupCount := groupCount s + 1\<rparr>"

text \<open>Lines 110 to 114 and 120 to 124: the break that follows the look-ahead.\<close>

definition longBreakStep :: "PomodoroSettings \<Rightarrow> loop_state \<Rightarrow> loop_state" where
  "longBreakStep cfg s =
     s\<lparr>planLines := planLines s @ (if includeLongBreak cfg then [longBreakLine cfg s] else []),
       currentTime := addMinutes (currentTime s) (longBreak cfg),
       totalRestTime := totalRestTime s + longBreak cfg,
       groupCount := 0\<rparr>"

definition shortBreakStep :: "PomodoroSettings \<Rightarrow> loop_state \<Rightarrow> loop_state" where
  "shortBreakStep cfg s =
     s\<lparr>planLines := planLines s @ (if includeShortBreak cfg then [shortBreakLine cfg s] else []),
       currentTime := addMinutes (currentTime s) (shortBreak cfg),
       totalRestTime := totalRestTime s + shortBreak cfg\<rparr>"

text \<open>The \<open>while\<close> loop of lines 97 to 127; \<open>None\<close> is a loop that never ends.\<close>

partial_function (option) planLoop ::
  "PomodoroSettings \<Rightarrow> endTimeOrCount \<Rightarrow> loop_state \<Rightarrow> loop_state option" where
  "planLoop cfg e s =
     (if willContinue (addMinutes (currentTime s) (pomodoro cfg)) (pomodoroCount s) e then
        (if groupCount (workStep cfg s) = group cfg then
           (if \<not> willContinue
                   (addMinutes (currentTime (workStep cfg s)) (longBreak cfg + pomodoro cfg))
                   (pomodoroCount (workStep cfg s)) e
            then Some (workStep cfg s)
            else planLoop cfg e (longBreakStep cfg (workStep cfg s)))
         else
           (if \<not> willContinue
                   (addMinutes (currentTime (workStep cfg s)) (pomodoro cfg + shortBreak cfg))
                   (pomodoroCount (workStep cfg s)) e
            then Some (workStep cfg s)
            else planLoop cfg e (shortBreakStep cfg (workStep cfg s))))
      else Some s)"

declare planLoop.simps [code]

subsection \<open>generatePomodoroPlan and the form\<close>

text \<open>The statistics block of lines 136 to 161, for the state the loop ended in.\<close>

definition totalWorkMinutes :: "PomodoroSettings \<Rightarrow> loop_state \<Rightarrow> int" where
  "totalWorkMinutes cfg s = pomodoro cfg * (pomodoroCount s - 1)"

definition statsInfo :: "PomodoroSettings \<Rightarrow> loop_state \<Rightarrow> string" where
  "statsInfo cfg s =
     (let totalWorkTimeHours = totalWorkMinutes cfg s div 60;
          totalWorkTimeMinutes = js_rem (totalWorkMinutes cfg s) 60;
          totalRestTimeHours = totalRestTime s div 60;
          totalRestTimeMinutes = js_rem (totalRestTime s) 60
      in newline @ newline
         @ ''  Total pomodoros: '' @ numToString (Some (pomodoroCount s - 1)) @ newline
         @ ''  Total work time: ''
         @ (if totalWorkTimeHours > 0
            then numToString (Some totalWorkTimeHours) @ '' hours''
                 @ (if totalWorkTimeMinutes > 0
                    then '', '' @ numToString (Some totalWorkTimeMinutes) @ '' minutes'' else [])
            else numToString (Some totalWorkTimeMinutes) @ '' minutes'')
         @ newline
         @ ''  Total rest time: ''
         @ (if totalRestTimeHours > 0
            then numToString (Some totalRestTimeHours) @ '' hours''
                 @ (if totalRestTimeMinutes > 0
                    then '', '' @ numToString (Some totalRestTimeMinutes) @ '' minutes'' else [])
            else numToString (Some totalRestTimeMinutes) @ '' minutes'')
         @ newline)"

text \<open>
  The modal. \<open>endStr\<close> is the field \<open>end\<close>, undefined (\<open>None\<close>) until the user types;
  \<open>resultEl\<close> is the element that shows the plan, undefined until \<open>onOpen\<close> creates it
  and modelled by the texts written to it, in order; \<open>notices\<close> are the notices shown and
  \<open>savedSettings\<close> the calls of \<open>saveSettings\<close>.
\<close>

record modal =
  settings :: PomodoroSettings
  start :: string
  endStr :: "string option"
  resultMarkdown :: string
  resultEl :: "string list option"
  notices :: "string list"
  savedSettings :: "PomodoroSettings list"

datatype error = TypeError

definition initialState :: "int option \<Rightarrow> loop_state" where
  "initialState startTime =
     \<lparr>currentTime = startTime, groupCount = 0, totalRestTime = 0, pomodoroCount = 1,
      planLines = []\<rparr>"

text \<open>
  \<open>generatePomodoroPlan\<close> with the two readings of the clock that \<open>parseTime\<close> makes, for
  the start and for the end. The outer \<open>None\<close> is a loop that never ends; \<open>Inl\<close> is the
  exception of \<open>this.resultEl.setText\<close> on an undefined element.
\<close>

definition generatePomodoroPlan :: "int \<Rightarrow> int \<Rightarrow> modal \<Rightarrow> (error + modal) option" where
  "generatePomodoroPlan clock1 clock2 m =
     (let startTime = parseTime clock1 (start m);
          parsed = parseTimeOrCount clock2 (endStr m);
          cfg = settings m
      in case planLoop cfg (fst parsed) (initialState startTime) of
           None \<Rightarrow> None
         | Some s \<Rightarrow>
             Some
               (let m1 = m\<lparr>resultMarkdown := concat (planLines s),
                           notices := notices m @ snd parsed\<rparr>
                in if pomodoroCount s - 1 = 0 then
                     (case resultEl m1 of
                        None \<Rightarrow> Inl TypeError
                      | Some h \<Rightarrow> Inr (m1\<lparr>resultEl := Some (h @ [[]])\<rparr>))
                   else
                     (let m2 = (if includeStats cfg
                                then m1\<lparr>resultMarkdown := resultMarkdown m1
                                          @ statsInfo cfg s\<rparr>
                                else m1)
                      in case resultEl m2 of
                           None \<Rightarrow> Inr m2
                         | Some h \<Rightarrow>
                             Inr (m2\<lparr>resultEl := Some (h @ [resultMarkdown m2]),
                                     savedSettings := savedSettings m2 @ [settings m2]\<rparr>))))"

text \<open>The change handlers that \<open>onOpen\<close> installs on the numeric fields, and \<open>onOpen\<close>
  itself, which creates the result element and generates once.\<close>

definition onChangePomodoro :: "int \<Rightarrow> int \<Rightarrow> string \<Rightarrow> modal \<Rightarrow> (error + modal) option" where
  "onChangePomodoro clock1 clock2 v m =
     (if \<not> isNaN (parseInt v)
      then generatePomodoroPlan clock1 clock2
             (m\<lparr>settings := (settings m)\<lparr>pomodoro := (case parseInt v of Some n \<Rightarrow> n | None \<Rightarrow> 0)\<rparr>\<rparr>)
      else Some (Inr m))"

definition onChangeShortBreak :: "int \<Rightarrow> int \<Rightarrow> string \<Rightarrow> modal \<Rightarrow> (error + modal) option" where
  "onChangeShortBreak clock1 clock2 v m =
     (if \<not> isNaN (parseInt v)
      then generatePomodoroPlan clock1 clock2
             (m\<lparr>settings := (settings m)\<lparr>shortBreak := (case parseInt v of Some n \<Rightarrow> n | None \<Rightarrow> 0)\<rparr>\<rparr>)
      else Some (Inr m))"

definition onChangeLongBreak :: "int \<Rightarrow> int \<Rightarrow> string \<Rightarrow> modal \<Rightarrow> (error + modal) option" where
  "onChangeLongBreak clock1 clock2 v m =
     (if \<not> isNaN (parseInt v)
      then generatePomodoroPlan clock1 clock2
             (m\<lparr>settings := (settings m)\<lparr>longBreak := (case parseInt v of Some n \<Rightarrow> n | None \<Rightarrow> 0)\<rparr>\<rparr>)
      else Some (Inr m))"

definition onChangeGroup :: "int \<Rightarrow> int \<Rightarrow> string \<Rightarrow> modal \<Rightarrow> (error + modal) option" where
  "onChangeGroup clock1 clock2 v m =
     (if \<not> isNaN (parseInt v)
      then generatePomodoroPlan clock1 clock2
             (m\<lparr>settings := (settings m)\<lparr>group := (case parseInt v of Some n \<Rightarrow> n | None \<Rightarrow> 0)\<rparr>\<rparr>)
      else Some (Inr m))"

definition onOpen :: "int \<Rightarrow> int \<Rightarrow> modal \<Rightarrow> (error + modal) option" where
  "onOpen clock1 clock2 m = generatePomodoroPlan clock1 clock2 (m\<lparr>resultEl := Some []\<rparr>)"

section \<open>The generator over the Date of the host\<close>

text \<open>
  What a \<open>Date\<close> makes of a time value depends on the time zone of the host and on the
  range of dates it can hold, and \<open>Number\<close> on the rounding of the host. The generator is
  written here once more, line by line as above, over a platform that is a parameter: its
  \<open>Number\<close> and the four \<open>Date\<close> methods the code calls. A date is its time value, the
  milliseconds of UTC since the epoch, or \<open>None\<close> for an invalid date.
\<close>

record platform =
  pNumber :: "string \<Rightarrow> jsnum"
  pGetHours :: "int option \<Rightarrow> int option"
  pGetMinutes :: "int option \<Rightarrow> int option"
  pSetHours :: "int option \<Rightarrow> jsnum \<Rightarrow> int option"
  pSetMinutes :: "int option \<Rightarrow> jsnum \<Rightarrow> int option"

definition parseTimeOn :: "platform \<Rightarrow> int \<Rightarrow> string \<Rightarrow> int option" where
  "parseTimeOn H clock time =
     (let parts = map (pNumber H) (split_js CHR '':'' time);
          hours = (case parts of h # r \<Rightarrow> h | [] \<Rightarrow> NaN);
          minutes = (case parts of h # m # r \<Rightarrow> m | _ \<Rightarrow> NaN);
          now = Some clock
      in pSetMinutes H (pSetHours H now hours) minutes)"

definition parseTimeOrCountOn ::
  "platform \<Rightarrow> int \<Rightarrow> string option \<Rightarrow> endTimeOrCount \<times> string list" where
  "parseTimeOrCountOn H clock timeOrCount =
     (case timeOrCount of
        None \<Rightarrow> (Count 0, [])
      | Some s \<Rightarrow>
          if s = [] then (Count 0, [])
          else (let time = parseTimeOn H clock s in
                if time \<noteq> None then (Time time, [])
                else (let count = parseInt s in
                      if \<not> isNaN count then (Count (case count of Some c \<Rightarrow> c | None \<Rightarrow> 0), [])
                      else (Count 0, [''Invalid time or count format'']))))"

definition addMinutesOn :: "platform \<Rightarrow> int option \<Rightarrow> int \<Rightarrow> int option" where
  "addMinutesOn H time minutes =
     pSetMinutes H time
       (case pGetMinutes H time of None \<Rightarrow> NaN | Some m \<Rightarrow> Fin (of_int (m + minutes)))"

definition formatTimeOn :: "platform \<Rightarrow> int option \<Rightarrow> string" where
  "formatTimeOn H time =
     padStart2 (numToString (pGetHours H time)) @ '':''
       @ padStart2 (numToString (pGetMinutes H time))"

definition pomodoroLineOn :: "platform \<Rightarrow> PomodoroSettings \<Rightarrow> loop_state \<Rightarrow> string" where
  "pomodoroLineOn H cfg s =
     ''- [ ] '' @ formatTimeOn H (currentTime s) @ '' - ''
       @ formatTimeOn H (addMinutesOn H (currentTime s) (pomodoro cfg))
       @ '' Pomodoro #'' @ numToString (Some (pomodoroCount s)) @ newline"

definition longBreakLineOn :: "platform \<Rightarrow> PomodoroSettings \<Rightarrow> loop_state \<Rightarrow> string" where
  "longBreakLineOn H cfg s =
     ''- [ ] '' @ formatTimeOn H (currentTime s) @ '' - ''
       @ formatTimeOn H (addMinutesOn H (currentTime s) (longBreak cfg))
       @ '' Long Break'' @ newline"

definition shortBreakLineOn :: "platform \<Rightarrow> PomodoroSettings \<Rightarrow> loop_state \<Rightarrow> string" where
  "shortBreakLineOn H cfg s =
     ''- [ ] '' @ formatTimeOn H (currentTime s) @ '' - ''
       @ formatTimeOn H (addMinutesOn H (currentTime s) (shortBreak cfg))
       @ '' Short Break'' @ newline"

definition workStepOn :: "platform \<Rightarrow> PomodoroSettings \<Rightarrow> loop_state \<Rightarrow> loop_state" where
  "workStepOn H cfg s =
     s\<lparr>planLines := planLines s @ [pomodoroLineOn H cfg s],
       currentTime := addMinutesOn H (currentTime s) (pomodoro cfg),
       pomodoroCount := pomodoroCount s + 1,
       groupCount := groupCount s + 1\<rparr>"

definition longBreakStepOn :: "platform \<Rightarrow> PomodoroSettings \<Rightarrow> loop_state \<Rightarrow> loop_state" where
  "longBreakStepOn H cfg s =
     s\<lparr>planLines := planLines s @ (if includeLongBreak cfg then [longBreakLineOn H cfg s] else []),
       currentTime := addMinutesOn H (currentTime s) (longBreak cfg),
       totalRestTime := totalRestTime s + longBreak cfg,
       groupCount := 0\<rparr>"

definition shortBreakStepOn :: "platform \<Rightarrow> PomodoroSettings \<Rightarrow> loop_state \<Rightarrow> loop_state" where
  "shortBreakStepOn H cfg s =
     s\<lparr>planLines := planLines s
         @ (if includeShortBreak cfg then [shortBreakLineOn H cfg s] else []),
       currentTime := addMinutesOn H (currentTime s) (shortBreak cfg),
       totalRestTime := totalRestTime s + shortBreak cfg\<rparr>"

partial_function (option) planLoopOn ::
  "platform \<Rightarrow> PomodoroSettings \<Rightarrow> endTimeOrCount \<Rightarrow> loop_state \<Rightarrow> loop_state option" where
  "planLoopOn H cfg e s =
     (if willContinue (addMinutesOn H (currentTime s) (pomodoro cfg)) (pomodoroCount s) e then
        (if groupCount (workStepOn H cfg s) = group cfg then
           (if \<not> willContinue
                   (addMinutesOn H (currentTime (workStepOn H cfg s))
                      (longBreak cfg + pomodoro cfg))
                   (pomodoroCount (workStepOn H cfg s)) e
            then Some (workStepOn H cfg s)
            else planLoopOn H cfg e (longBreakStepOn H cfg (workStepOn H cfg s)))
         else
           (if \<not> willContinue
                   (addMinutesOn H (currentTime (workStepOn H cfg s))
                      (pomodoro cfg + shortBreak cfg))
                   (pomodoroCount (workStepOn H cfg s)) e
            then Some (workStepOn H cfg s)
            else planLoopOn H cfg e (shortBreakStepOn H cfg (workStepOn H cfg s))))
      else Some s)"

declare planLoopOn.simps [code]

definition generatePomodoroPlanOn ::
  "platform \<Rightarrow> int \<Rightarrow> int \<Rightarrow> modal \<Rightarrow> (error + modal) option" where
  "generatePomodoroPlanOn H clock1 clock2 m =
     (let startTime = parseTimeOn H clock1 (start m);
          parsed = parseTimeOrCountOn H clock2 (endStr m);
          cfg = settings m
      in case planLoopOn H cfg (fst parsed) (initialState startTime) of
           None \<Rightarrow> None
         | Some s \<Rightarrow>
             Some
               (let m1 = m\<lparr>resultMarkdown := concat (planLines s),
                           notices := notices m @ snd parsed\<rparr>
                in if pomodoroCount s - 1 = 0 then
                     (case resultEl m1 of
                        None \<Rightarrow> Inl TypeError
                      | Some h \<Rightarrow> Inr (m1\<lparr>resultEl := Some (h @ [[]])\<rparr>))
                   else
                     (let m2 = (if includeStats cfg
                                then m1\<lparr>resultMarkdown := resultMarkdown m1
                                          @ statsInfo cfg s\<rparr>
                                else m1)
                      in case resultEl m2 of
                           None \<Rightarrow> Inr m2
                         | Some h \<Rightarrow>
                             Inr (m2\<lparr>resultEl := Some (h @ [resultMarkdown m2]),
                                     savedSettings := savedSettings m2 @ [settings m2]\<rparr>))))"

subsection \<open>The Date of the language standard\<close>

text \<open>
  A time zone is the offset of local time from UTC, in milliseconds, before its first
  transition, and its transitions in ascending order: the instant of each and the offset
  from then on. \<open>LocalTime\<close> adds the offset in force at an instant. \<open>UTC\<close> reads a local
  time with the offset before a transition when that time is skipped by the transition or
  happens twice. \<open>TimeClip\<close> is the range of a \<open>Date\<close>: a hundred million days either side
  of the epoch. The setters work on the fields of local time, as the standard has them;
  sums and products are exact, as they are on time values in range.
\<close>

record zone =
  stdOffset :: int
  transitions :: "(int \<times> int) list"

fun offsetFrom :: "int \<Rightarrow> (int \<times> int) list \<Rightarrow> int \<Rightarrow> int" where
  "offsetFrom off [] u = off"
| "offsetFrom off ((T, off1) # rest) u = (if u < T then off else offsetFrom off1 rest u)"

definition LocalTime :: "zone \<Rightarrow> int \<Rightarrow> int" where
  "LocalTime z u = u + offsetFrom (stdOffset z) (transitions z) u"

fun utcFrom :: "int \<Rightarrow> (int \<times> int) list \<Rightarrow> int \<Rightarrow> int" where
  "utcFrom off [] lt = lt - off"
| "utcFrom off ((T, off1) # rest) lt =
     (if lt - off < T \<or> lt - off1 < T then lt - off else utcFrom off1 rest lt)"

definition UTC :: "zone \<Rightarrow> int \<Rightarrow> int" where
  "UTC z lt = utcFrom (stdOffset z) (transitions z) lt"

definition TimeClip :: "int \<Rightarrow> int option" where
  "TimeClip t = (if \<bar>t\<bar> \<le> 8640000000000000 then Some t else None)"

definition getHoursIn :: "zone \<Rightarrow> int option \<Rightarrow> int option" where
  "getHoursIn z d = map_option (\<lambda>u. (LocalTime z u div msPerHour) mod 24) d"

definition getMinutesIn :: "zone \<Rightarrow> int option \<Rightarrow> int option" where
  "getMinutesIn z d = map_option (\<lambda>u. (LocalTime z u div msPerMinute) mod 60) d"

fun setHoursIn :: "zone \<Rightarrow> int option \<Rightarrow> jsnum \<Rightarrow> int option" where
  "setHoursIn z (Some u) (Fin h) =
     (let t = LocalTime z u
      in TimeClip (UTC z ((t div msPerDay) * msPerDay + toInteger h * msPerHour
                          + t mod msPerHour)))"
| "setHoursIn z _ _ = None"

fun setMinutesIn :: "zone \<Rightarrow> int option \<Rightarrow> jsnum \<Rightarrow> int option" where
  "setMinutesIn z (Some u) (Fin m) =
     (let t = LocalTime z u
      in TimeClip (UTC z ((t div msPerHour) * msPerHour + toInteger m * msPerMinute
                          + t mod msPerMinute)))"
| "setMinutesIn z _ _ = None"

definition zonePlatform :: "zone \<Rightarrow> platform" where
  "zonePlatform z =
     \<lparr>pNumber = Number_js, pGetHours = getHoursIn z, pGetMinutes = getMinutesIn z,
      pSetHours = setHoursIn z, pSetMinutes = setMinutesIn z\<rparr>"

text \<open>The platform of the first part: local time at offset zero and no limit of range.\<close>

definition idealPlatform :: platform where
  "idealPlatform =
     \<lparr>pNumber = Number_js, pGetHours = getHours, pGetMinutes = getMinutes,
      pSetHours = setHours, pSetMinutes = setMinutes\<rparr>"

section \<open>Notions used to state the properties\<close>

text \<open>One pass through the loop body: \<open>Inl\<close> is the state the loop ends in (its condition
  fails, or a \<open>break\<close>), \<open>Inr\<close> the state the next pass starts from.\<close>

definition loopBody ::
  "PomodoroSettings \<Rightarrow> endTimeOrCount \<Rightarrow> loop_state \<Rightarrow> loop_state + loop_state" where
  "loopBody cfg e s =
     (if willContinue (addMinutes (currentTime s) (pomodoro cfg)) (pomodoroCount s) e then
        (if groupCount (workStep cfg s) = group cfg then
           (if \<not> willContinue
                   (addMinutes (currentTime (workStep cfg s)) (longBreak cfg + pomodoro cfg))
                   (pomodoroCount (workStep cfg s)) e
            then Inl (workStep cfg s)
            else Inr (longBreakStep cfg (workStep cfg s)))
         else
           (if \<not> willContinue
                   (addMinutes (currentTime (workStep cfg s)) (pomodoro cfg + shortBreak cfg))
                   (pomodoroCount (workStep cfg s)) e
            then Inl (workStep cfg s)
            else Inr (shortBreakStep cfg (workStep cfg s))))
      else Inl s)"

text \<open>The time \<open>x\<close> minutes after midnight of the day of a clock reading, with the seconds
  and milliseconds of that reading; and the minutes after midnight that a time string
  denotes.\<close>

definition atMinute :: "int \<Rightarrow> int \<Rightarrow> int option" where
  "atMinute clock x =
     Some (clock div msPerDay * msPerDay + x * msPerMinute + clock mod msPerMinute)"

definition minutesOfDay :: "string \<Rightarrow> int option" where
  "minutesOfDay time =
     (case map Number_js (split_js CHR '':'' time) of
        Fin h # Fin m # r \<Rightarrow> Some (toInteger h * 60 + toInteger m)
      | _ \<Rightarrow> None)"

text \<open>The kinds of schedule line, read off the text of a line.\<close>

definition isPomodoroLine :: "string \<Rightarrow> bool" where
  "isPomodoroLine l \<longleftrightarrow> sublist ''Pomodoro #'' l"

definition isBreakLine :: "string \<Rightarrow> bool" where
  "isBreakLine l \<longleftrightarrow> sublist '' Long Break'' l \<or> sublist '' Short Break'' l"

text \<open>Every break line has a next line, and that line is a pomodoro line.\<close>

definition breaksFollowed :: "string list \<Rightarrow> bool" where
  "breaksFollowed ls \<longleftrightarrow>
     successively (\<lambda>a b. isBreakLine a \<longrightarrow> isPomodoroLine b) ls
     \<and> (ls = [] \<or> \<not> isBreakLine (last ls))"

text \<open>The lines of the schedule text of a loop state, without their line ends: none holds a
  line end, and the pomodoro lines among them are as many as the pomodoros counted.\<close>

definition linesOf :: "loop_state \<Rightarrow> string list \<Rightarrow> bool" where
  "linesOf s bs \<longleftrightarrow>
     planLines s = map (\<lambda>b. b @ [CHR 0x0A]) bs \<and> (\<forall>b\<in>set bs. CHR 0x0A \<notin> set b)
     \<and> int (length (filter isPomodoroLine bs)) = pomodoroCount s - 1"

text \<open>Two dates that are both invalid, or the same minute of the day of two clock
  readings; and two loop states that differ in this way only.\<close>

definition sameMinuteOfDay :: "int \<Rightarrow> int \<Rightarrow> int option \<Rightarrow> int option \<Rightarrow> bool" where
  "sameMinuteOfDay c c' t t' \<longleftrightarrow>
     t = None \<and> t' = None \<or> (\<exists>x. t = atMinute c x \<and> t' = atMinute c' x)"

definition sameButClock :: "int \<Rightarrow> int \<Rightarrow> loop_state \<Rightarrow> loop_state \<Rightarrow> bool" where
  "sameButClock c c' s s' \<longleftrightarrow>
     groupCount s = groupCount s' \<and> totalRestTime s = totalRestTime s'
     \<and> pomodoroCount s = pomodoroCount s' \<and> planLines s = planLines s'
     \<and> sameMinuteOfDay c c' (currentTime s) (currentTime s')"

text \<open>What is left for the loop to do: pomodoros still to count, or milliseconds to the
  end time.\<close>

definition loopMeasure :: "endTimeOrCount \<Rightarrow> loop_state \<Rightarrow> nat" where
  "loopMeasure e s =
     (case e of
        Count n \<Rightarrow> nat (n + 1 - pomodoroCount s)
      | Time None \<Rightarrow> 0
      | Time (Some t) \<Rightarrow> (case currentTime s of None \<Rightarrow> 0 | Some c \<Rightarrow> nat (t - c)))"

text \<open>The plan text of a finished generation.\<close>

definition planText :: "(error + modal) option \<Rightarrow> string option" where
  "planText res = (case res of Some (Inr m) \<Rightarrow> Some (resultMarkdown m) | _ \<Rightarrow> None)"

definition planContains :: "(error + modal) option \<Rightarrow> string \<Rightarrow> bool" where
  "planContains res pat = (case planText res of Some t \<Rightarrow> sublist pat t | None \<Rightarrow> False)"

text \<open>The modal right after \<open>onOpen\<close> has created the result element, with the default
  settings.\<close>

definition formOpened :: "string \<Rightarrow> string option \<Rightarrow> modal" where
  "formOpened st en =
     \<lparr>settings = DEFAULT_SETTINGS, start = st, endStr = en, resultMarkdown = [],
      resultEl = Some [], notices = [], savedSettings = []\<rparr>"

text \<open>Two clock readings, for the start and for the end, on the same day and with the
  seconds and milliseconds of the first not after those of the second, as when both fall
  in the same minute.\<close>

definition clockPairOk :: "int \<Rightarrow> int \<Rightarrow> bool" where
  "clockPairOk c1 c2 \<longleftrightarrow>
     c1 div msPerDay = c2 div msPerDay \<and> c1 mod msPerMinute \<le> c2 mod msPerMinute"

text \<open>One pass of the loop on a platform.\<close>

definition loopBodyOn ::
  "platform \<Rightarrow> PomodoroSettings \<Rightarrow> endTimeOrCount \<Rightarrow> loop_state \<Rightarrow> loop_state + loop_state"
  where
  "loopBodyOn H cfg e s =
     (if willContinue (addMinutesOn H (currentTime s) (pomodoro cfg)) (pomodoroCount s) e then
        (if groupCount (workStepOn H cfg s) = group cfg then
           (if \<not> willContinue
                   (addMinutesOn H (currentTime (workStepOn H cfg s))
                      (longBreak cfg + pomodoro cfg))
                   (pomodoroCount (workStepOn H cfg s)) e
            then Inl (workStepOn H cfg s)
            else Inr (longBreakStepOn H cfg (workStepOn H cfg s)))
         else
           (if \<not> willContinue
                   (addMinutesOn H (currentTime (workStepOn H cfg s))
                      (pomodoro cfg + shortBreak cfg))
                   (pomodoroCount (workStepOn H cfg s)) e
            then Inl (workStepOn H cfg s)
            else Inr (shortBreakStepOn H cfg (workStepOn H cfg s))))
      else Inl s)"

text \<open>A time value that a \<open>Date\<close> can hold.\<close>

definition isTimeValue :: "int option \<Rightarrow> bool" where
  "isTimeValue d = (case d of None \<Rightarrow> True | Some t \<Rightarrow> \<bar>t\<bar> \<le> 8640000000000000)"



text \<open>The work-interval count of a loop state.\<close>

definition workIntervalCount :: "loop_state \<Rightarrow> int" where
  "workIntervalCount s = pomodoroCount s - 1"

section \<open>Date arithmetic\<close>

lemma addMinutes_None: "addMinutes None k = None"
  by (simp add: addMinutes_def getMinutes_def)

lemma toInteger_of_int: "toInteger (of_int i) = i"
  by (simp add: toInteger_def)

lemma msPerHour_eq: "msPerHour = 60 * msPerMinute"
  by (simp add: msPerHour_def msPerMinute_def)

lemma msPerDay_eq: "msPerDay = 1440 * msPerMinute"
  by (simp add: msPerDay_def msPerMinute_def)

lemma msPerMinute_pos: "0 < msPerMinute"
  by (simp add: msPerMinute_def)

lemma div_msPerHour: "t div msPerHour = t div msPerMinute div 60"
  using zdiv_zmult2_eq[of 60 t 60000] by (simp add: msPerHour_def msPerMinute_def)

lemma addMinutes_Some: "addMinutes (Some t) k = Some (t + k * msPerMinute)"
proof -
  define q where "q = t div msPerMinute"
  have t: "t = q * msPerMinute + t mod msPerMinute"
    by (simp add: q_def)
  have "q div 60 * msPerHour + (q mod 60 + k) * msPerMinute + t mod msPerMinute
      = (q div 60 * 60 + q mod 60) * msPerMinute + t mod msPerMinute + k * msPerMinute"
    unfolding msPerHour_eq by (simp only: algebra_simps)
  also have "\<dots> = q * msPerMinute + t mod msPerMinute + k * msPerMinute"
    by simp
  also have "\<dots> = t + k * msPerMinute"
    using t by simp
  finally show ?thesis
    unfolding addMinutes_def getMinutes_def option.map option.case setMinutes.simps
      toInteger_of_int div_msPerHour q_def by simp
qed

lemma addMinutes_add: "addMinutes (addMinutes t a) b = addMinutes t (a + b)"
  by (cases t) (simp_all add: addMinutes_None addMinutes_Some algebra_simps)

lemma addMinutes_atMinute: "addMinutes (atMinute c x) k = atMinute c (x + k)"
  by (simp add: atMinute_def addMinutes_Some algebra_simps)

lemma div_atMinute:
  "(a * msPerDay + x * msPerMinute + c mod msPerMinute) div msPerMinute = a * 1440 + x"
proof -
  have "a * msPerDay + x * msPerMinute + c mod msPerMinute
      = c mod msPerMinute + (a * 1440 + x) * msPerMinute"
    unfolding msPerDay_eq by (simp only: algebra_simps)
  thus ?thesis using msPerMinute_pos by simp
qed

lemma mod_atMinute:
  "(a * msPerDay + x * msPerMinute + c mod msPerMinute) mod msPerMinute = c mod msPerMinute"
proof -
  have "a * msPerDay + x * msPerMinute + c mod msPerMinute
      = c mod msPerMinute + (a * 1440 + x) * msPerMinute"
    unfolding msPerDay_eq by (simp only: algebra_simps)
  thus ?thesis by simp
qed

lemma div60_1440: "(a * 1440 + x) div 60 = a * 24 + x div (60::int)"
proof -
  have "a * 1440 + x = x + (a * 24) * 60" by simp
  thus ?thesis by (simp only: div_mult_self1)
qed

lemma get_atMinute:
  "getHours (atMinute c x) = Some (x div 60 mod 24)"
  "getMinutes (atMinute c x) = Some (x mod 60)"
proof -
  have 1: "(a * 1440 + x) mod 60 = x mod 60" for a :: int
  proof -
    have "a * 1440 + x = x + (a * 24) * 60" by simp
    thus ?thesis by (simp only: mod_mult_self1)
  qed
  have 2: "(a * 1440 + x) div 60 mod 24 = x div 60 mod 24" for a :: int
    unfolding div60_1440 by simp
  show "getMinutes (atMinute c x) = Some (x mod 60)"
    unfolding getMinutes_def atMinute_def option.map div_atMinute 1 ..
  show "getHours (atMinute c x) = Some (x div 60 mod 24)"
    unfolding getHours_def atMinute_def option.map div_msPerHour div_atMinute 2 ..
qed

lemma mod_msPerHour: "c mod msPerHour = c div msPerMinute mod 60 * msPerMinute + c mod msPerMinute"
proof -
  define q where "q = c div msPerMinute"
  define r where "r = c mod msPerMinute"
  have c: "c = q * msPerMinute + r" by (simp add: q_def r_def)
  have "c mod msPerHour = c - c div msPerHour * msPerHour"
    by (simp add: minus_div_mult_eq_mod)
  also have "\<dots> = c - q div 60 * (60 * msPerMinute)"
    by (subst div_msPerHour) (simp add: q_def msPerHour_eq)
  also have "\<dots> = (q - q div 60 * 60) * msPerMinute + r"
    by (subst c) (simp only: algebra_simps)
  also have "q - q div 60 * 60 = q mod 60"
    by (simp add: minus_div_mult_eq_mod)
  finally show ?thesis by (simp only: q_def r_def)
qed

lemma setHours_Some:
  "setHours (Some c) (Fin h) = atMinute c (toInteger h * 60 + c div msPerMinute mod 60)"
  unfolding setHours.simps atMinute_def
  by (subst mod_msPerHour) (simp add: msPerHour_eq algebra_simps)

lemma div_msPerHour_atMinute:
  "(a * msPerDay + x * msPerMinute + c mod msPerMinute) div msPerHour = a * 24 + x div 60"
  unfolding div_msPerHour div_atMinute div60_1440 ..

lemma setMinutes_atMinute:
  "setMinutes (atMinute c x) (Fin m) = atMinute c (x div 60 * 60 + toInteger m)"
  unfolding atMinute_def setMinutes.simps div_msPerHour_atMinute mod_atMinute
  by (simp add: msPerHour_eq msPerDay_eq algebra_simps)

lemma setHM: "setMinutes (setHours (Some c) (Fin h)) (Fin m) = atMinute c (toInteger h * 60 + toInteger m)"
proof -
  have "(h' * 60 + y mod 60) div 60 * 60 = h' * 60" for h' y :: int
  proof -
    have "(y mod 60 + h' * 60) div 60 = h'" by (simp only: div_mult_self1)
    thus ?thesis by (simp add: add.commute)
  qed
  thus ?thesis by (simp add: setHours_Some setMinutes_atMinute del: setHours.simps setMinutes.simps)
qed

lemma atMinute_le:
  assumes "c1 div msPerDay = c2 div msPerDay" "c1 mod msPerMinute \<le> c2 mod msPerMinute"
  shows "willContinue (atMinute c1 x) n (Time (atMinute c2 y)) = (x \<le> y)"
proof -
  have r2: "c2 mod msPerMinute < msPerMinute" "0 \<le> c1 mod msPerMinute" using msPerMinute_pos by simp_all
  have "x * msPerMinute + c1 mod msPerMinute \<le> y * msPerMinute + c2 mod msPerMinute \<longleftrightarrow> x \<le> y"
  proof
    assume "x \<le> y"
    hence "x * msPerMinute \<le> y * msPerMinute" using msPerMinute_pos by simp
    thus "x * msPerMinute + c1 mod msPerMinute \<le> y * msPerMinute + c2 mod msPerMinute"
      using assms(2) by linarith
  next
    assume a: "x * msPerMinute + c1 mod msPerMinute \<le> y * msPerMinute + c2 mod msPerMinute"
    show "x \<le> y"
    proof (rule ccontr)
      assume "\<not> x \<le> y"
      hence "y + 1 \<le> x" by simp
      hence "(y + 1) * msPerMinute \<le> x * msPerMinute" using msPerMinute_pos by (simp only: mult_le_cancel_right) simp
      thus False using a r2 by (simp add: algebra_simps)
    qed
  qed
  thus ?thesis using assms(1) by (simp add: atMinute_def)
qed

lemma parseTime_minutesOfDay:
  "parseTime c s = (case minutesOfDay s of None \<Rightarrow> None | Some x \<Rightarrow> atMinute c x)"
proof -
  have 1: "setMinutes (setHours (Some c) h) m =
      (case h of Fin h' \<Rightarrow> (case m of Fin m' \<Rightarrow> atMinute c (toInteger h' * 60 + toInteger m') | _ \<Rightarrow> None) | _ \<Rightarrow> None)" for h m
    by (cases h; cases m) (simp_all add: setHM del: setHours.simps setMinutes.simps, simp_all)
  show ?thesis
    unfolding parseTime_def minutesOfDay_def Let_def 1
    by (simp split: list.splits jsnum.splits)
qed

section \<open>Rules for the loop\<close>

lemma planLoop_loopBody:
  "planLoop cfg e s = (case loopBody cfg e s of Inl r \<Rightarrow> Some r | Inr s' \<Rightarrow> planLoop cfg e s')"
  by (subst planLoop.simps) (simp add: loopBody_def)

lemma planLoop_invariant:
  assumes run: "planLoop cfg e s = Some r"
    and init: "I s"
    and step: "\<And>s s'. I s \<Longrightarrow> loopBody cfg e s = Inr s' \<Longrightarrow> I s'"
    and stop: "\<And>s r. I s \<Longrightarrow> loopBody cfg e s = Inl r \<Longrightarrow> Q r"
  shows "Q r"
proof -
  have "c = cfg \<and> ee = e \<and> I s \<longrightarrow> Q r" if "planLoop c ee s = Some r" for c ee
    using that
  proof (induction c ee s r rule: planLoop.raw_induct[rotated 1, consumes 1])
    case (1 f c ee s r)
    show ?case
    proof (intro impI, elim conjE)
      assume eq: "c = cfg" "ee = e" and inv: "I s"
      show "Q r"
      proof (cases "loopBody cfg e s")
        case (Inl r')
        with 1(2) eq have "r' = r"
          by (simp add: loopBody_def split: if_splits)
        with Inl stop[OF inv] show ?thesis by simp
      next
        case (Inr s')
        with 1(2) eq have "f cfg e s' = Some r"
          by (simp add: loopBody_def split: if_splits)
        moreover have "I s'" using step[OF inv Inr] .
        ultimately show ?thesis using 1(1) by blast
      qed
    qed
  qed
  with run init show ?thesis by blast
qed


lemma planLoop_simulation_dir:
  assumes run: "planLoop cfg e s = Some r"
    and rel: "R s s'"
    and step: "\<And>s s'. R s s' \<Longrightarrow> rel_sum Q R (loopBody cfg e s) (loopBody cfg' e' s')"
  shows "\<exists>r'. planLoop cfg' e' s' = Some r' \<and> Q r r'"
proof -
  have "c = cfg \<and> ee = e \<longrightarrow>
        (\<forall>s'. R s s' \<longrightarrow> (\<exists>r'. planLoop cfg' e' s' = Some r' \<and> Q r r'))"
    if "planLoop c ee s = Some r" for c ee
    using that
  proof (induction c ee s r rule: planLoop.raw_induct[rotated 1, consumes 1])
    case (1 f c ee s r)
    show ?case
    proof (intro allI impI, elim conjE)
      fix s' assume eq: "c = cfg" "ee = e" and R: "R s s'"
      note st = step[OF R]
      show "\<exists>r'. planLoop cfg' e' s' = Some r' \<and> Q r r'"
      proof (cases "loopBody cfg e s")
        case (Inl r0)
        with 1(2) eq have "r0 = r"
          by (simp add: loopBody_def split: if_splits)
        with Inl st obtain r' where "loopBody cfg' e' s' = Inl r'" "Q r r'"
          by (cases "loopBody cfg' e' s'") auto
        thus ?thesis by (subst planLoop_loopBody) simp
      next
        case (Inr s1)
        with 1(2) eq have f: "f cfg e s1 = Some r"
          by (simp add: loopBody_def split: if_splits)
        from Inr st obtain s1' where b: "loopBody cfg' e' s' = Inr s1'" "R s1 s1'"
          by (cases "loopBody cfg' e' s'") auto
        from 1(1)[OF f] b(2) obtain r' where "planLoop cfg' e' s1' = Some r'" "Q r r'"
          by blast
        thus ?thesis using b(1) by (subst planLoop_loopBody) simp
      qed
    qed
  qed
  with run rel show ?thesis by blast
qed

lemma planLoop_simulation:
  assumes rel: "R s s'"
    and step: "\<And>s s'. R s s' \<Longrightarrow> rel_sum Q R (loopBody cfg e s) (loopBody cfg' e' s')"
  shows "rel_option Q (planLoop cfg e s) (planLoop cfg' e' s')"
proof (cases "planLoop cfg e s")
  case None
  show ?thesis
  proof (cases "planLoop cfg' e' s'")
    case None
    with \<open>planLoop cfg e s = None\<close> show ?thesis by simp
  next
    case (Some r')
    have "\<exists>r. planLoop cfg e s = Some r \<and> Q\<inverse>\<inverse> r' r"
    proof (rule planLoop_simulation_dir[OF Some, where R = "R\<inverse>\<inverse>"])
      show "R\<inverse>\<inverse> s' s" using rel by simp
      fix a b assume "R\<inverse>\<inverse> a b"
      hence "rel_sum Q R (loopBody cfg e b) (loopBody cfg' e' a)" using step by simp
      thus "rel_sum Q\<inverse>\<inverse> R\<inverse>\<inverse> (loopBody cfg' e' a) (loopBody cfg e b)"
        by (cases "loopBody cfg e b"; cases "loopBody cfg' e' a") auto
    qed
    with None show ?thesis by simp
  qed
next
  case (Some r)
  from planLoop_simulation_dir[OF Some rel step] obtain r' where
    "planLoop cfg' e' s' = Some r'" "Q r r'" by blast
  with Some show ?thesis by simp
qed

section \<open>The text of the schedule lines\<close>

lemma natToString_chars:
  "c \<in> set (natToString n) \<Longrightarrow> 48 \<le> (of_char c :: nat) \<and> (of_char c :: nat) \<le> 57"
proof (induction n rule: natToString.induct)
  case (1 n)
  show ?case
  proof (cases "n < 10")
    case True
    with 1(2) have "c = char_of (48 + n)"
      by (subst (asm) natToString.simps) simp
    with True show ?thesis by simp
  next
    case False
    with 1(2) have "c \<in> set (natToString (n div 10)) \<or> c = char_of (48 + n mod 10)"
      by (subst (asm) natToString.simps) auto
    thus ?thesis
    proof
      assume "c \<in> set (natToString (n div 10))"
      thus ?thesis using 1(1)[OF False] by simp
    next
      assume c: "c = char_of (48 + n mod 10)"
      have "n mod 10 < 10" by simp
      hence "(48 + n mod 10) mod 256 = 48 + n mod 10" by simp
      thus ?thesis unfolding c of_char_of by simp
    qed
  qed
qed

lemma numToString_noPB:
  "CHR ''P'' \<notin> set (numToString v)" "CHR ''B'' \<notin> set (numToString v)"
proof -
  have "CHR ''P'' \<notin> set (natToString n)" "CHR ''B'' \<notin> set (natToString n)" for n
    using natToString_chars[of "CHR ''P''" n] natToString_chars[of "CHR ''B''" n] by auto
  thus "CHR ''P'' \<notin> set (numToString v)" "CHR ''B'' \<notin> set (numToString v)"
    by (cases v; simp add: numToString_def)+
qed

lemma formatTime_noPB:
  "CHR ''P'' \<notin> set (formatTime t)" "CHR ''B'' \<notin> set (formatTime t)"
  by (simp_all add: formatTime_def padStart2_def numToString_noPB)

lemma not_sublist_char: "c \<in> set xs \<Longrightarrow> c \<notin> set ys \<Longrightarrow> \<not> sublist xs ys"
proof
  assume c: "c \<in> set xs" "c \<notin> set ys" and "sublist xs ys"
  from set_mono_sublist[OF this(3)] c show False by blast
qed

lemma isPomodoroLine_pomodoroLine: "isPomodoroLine (pomodoroLine cfg s)"
proof -
  have "pomodoroLine cfg s = (''- [ ] '' @ formatTime (currentTime s) @ '' - ''
       @ formatTime (addMinutes (currentTime s) (pomodoro cfg)) @ '' '') @ ''Pomodoro #''
       @ (numToString (Some (pomodoroCount s)) @ newline)"
    by (simp add: pomodoroLine_def)
  thus ?thesis unfolding isPomodoroLine_def by (simp only: sublist_appendI)
qed

lemma not_isBreakLine_pomodoroLine: "\<not> isBreakLine (pomodoroLine cfg s)"
proof -
  have B: "CHR ''B'' \<notin> set (pomodoroLine cfg s)"
    by (simp add: pomodoroLine_def newline_def formatTime_noPB numToString_noPB)
  have "\<not> sublist '' Long Break'' (pomodoroLine cfg s)"
    by (rule not_sublist_char[OF _ B]) simp
  moreover have "\<not> sublist '' Short Break'' (pomodoroLine cfg s)"
    by (rule not_sublist_char[OF _ B]) simp
  ultimately show ?thesis unfolding isBreakLine_def by simp
qed

lemma isBreakLine_longBreakLine: "isBreakLine (longBreakLine cfg s)"
proof -
  have "longBreakLine cfg s = (''- [ ] '' @ formatTime (currentTime s) @ '' - ''
       @ formatTime (addMinutes (currentTime s) (longBreak cfg))) @ '' Long Break'' @ newline"
    by (simp add: longBreakLine_def)
  thus ?thesis unfolding isBreakLine_def by (simp only: sublist_appendI simp_thms)
qed

lemma isBreakLine_shortBreakLine: "isBreakLine (shortBreakLine cfg s)"
proof -
  have "shortBreakLine cfg s = (''- [ ] '' @ formatTime (currentTime s) @ '' - ''
       @ formatTime (addMinutes (currentTime s) (shortBreak cfg))) @ '' Short Break'' @ newline"
    by (simp add: shortBreakLine_def)
  thus ?thesis unfolding isBreakLine_def by (simp only: sublist_appendI simp_thms)
qed

lemma not_isPomodoroLine_longBreakLine: "\<not> isPomodoroLine (longBreakLine cfg s)"
proof -
  have P: "CHR ''P'' \<notin> set (longBreakLine cfg s)"
    by (simp add: longBreakLine_def newline_def formatTime_noPB)
  show ?thesis unfolding isPomodoroLine_def
    by (rule not_sublist_char[OF _ P]) simp
qed

lemma not_isPomodoroLine_shortBreakLine: "\<not> isPomodoroLine (shortBreakLine cfg s)"
proof -
  have P: "CHR ''P'' \<notin> set (shortBreakLine cfg s)"
    by (simp add: shortBreakLine_def newline_def formatTime_noPB)
  show ?thesis unfolding isPomodoroLine_def
    by (rule not_sublist_char[OF _ P]) simp
qed

section \<open>The generator on a platform\<close>

lemma addMinutesOn_ideal: "addMinutesOn idealPlatform t k = addMinutes t k"
  by (cases t) (simp_all add: addMinutesOn_def addMinutes_def idealPlatform_def getMinutes_def)

lemma parseTimeOn_ideal: "parseTimeOn idealPlatform = parseTime"
  by (intro ext) (simp add: parseTimeOn_def parseTime_def idealPlatform_def)

lemma parseTimeOrCountOn_ideal: "parseTimeOrCountOn idealPlatform c s = parseTimeOrCount c s"
  unfolding parseTimeOrCountOn_def parseTimeOrCount_def parseTimeOn_ideal ..

lemma formatTimeOn_ideal: "formatTimeOn idealPlatform t = formatTime t"
  by (simp add: formatTimeOn_def formatTime_def idealPlatform_def)

lemma stepsOn_ideal:
  "workStepOn idealPlatform cfg s = workStep cfg s"
  "longBreakStepOn idealPlatform cfg s = longBreakStep cfg s"
  "shortBreakStepOn idealPlatform cfg s = shortBreakStep cfg s"
  by (simp_all add: workStepOn_def workStep_def longBreakStepOn_def longBreakStep_def
      shortBreakStepOn_def shortBreakStep_def pomodoroLineOn_def pomodoroLine_def
      longBreakLineOn_def longBreakLine_def shortBreakLineOn_def shortBreakLine_def
      addMinutesOn_ideal formatTimeOn_ideal)

lemma loopBodyOn_ideal: "loopBodyOn idealPlatform cfg e s = loopBody cfg e s"
  unfolding loopBodyOn_def loopBody_def stepsOn_ideal addMinutesOn_ideal ..

lemma planLoopOn_loopBodyOn:
  "planLoopOn P cfg e s =
     (case loopBodyOn P cfg e s of Inl r \<Rightarrow> Some r | Inr s' \<Rightarrow> planLoopOn P cfg e s')"
  by (subst planLoopOn.simps) (simp add: loopBodyOn_def)

lemma planLoopOn_invariant:
  assumes run: "planLoopOn P cfg e s = Some r"
    and init: "I s"
    and step: "\<And>s s'. I s \<Longrightarrow> loopBodyOn P cfg e s = Inr s' \<Longrightarrow> I s'"
    and stop: "\<And>s r. I s \<Longrightarrow> loopBodyOn P cfg e s = Inl r \<Longrightarrow> Q r"
  shows "Q r"
proof -
  have "p = P \<and> c = cfg \<and> ee = e \<and> I s \<longrightarrow> Q r"
    if run: "planLoopOn p c ee s = Some r" for p c ee s r
  proof (rule planLoopOn.raw_induct[where P = "\<lambda>p c ee s r. p = P \<and> c = cfg \<and> ee = e \<and> I s \<longrightarrow> Q r",
        OF _ run], goal_cases)
    case (1 f p c ee s r)
    show ?case
    proof (intro impI, elim conjE)
      assume eq: "p = P" "c = cfg" "ee = e" and inv: "I s"
      show "Q r"
      proof (cases "loopBodyOn P cfg e s")
        case (Inl r')
        with 1(2) eq have "r' = r"
          by (simp add: loopBodyOn_def split: if_splits)
        with Inl stop[OF inv] show ?thesis by simp
      next
        case (Inr s')
        with 1(2) eq have "f P cfg e s' = Some r"
          by (simp add: loopBodyOn_def split: if_splits)
        moreover have "I s'" using step[OF inv Inr] .
        ultimately show ?thesis using 1(1) by blast
      qed
    qed
  qed
  with run init show ?thesis by blast
qed

lemma planLoopOn_terminates:
  fixes f :: "loop_state \<Rightarrow> nat"
  assumes init: "I s"
    and step: "\<And>s s'. I s \<Longrightarrow> loopBodyOn P cfg e s = Inr s' \<Longrightarrow> I s' \<and> f s' < f s"
  shows "\<exists>r. planLoopOn P cfg e s = Some r"
  using init
proof (induction "f s" arbitrary: s rule: less_induct)
  case less
  show ?case
  proof (cases "loopBodyOn P cfg e s")
    case (Inl r)
    thus ?thesis by (subst planLoopOn_loopBodyOn) simp
  next
    case (Inr s')
    from step[OF less.prems Inr] have "I s'" "f s' < f s" by simp_all
    from less.hyps[OF this(2) this(1)] obtain r where "planLoopOn P cfg e s' = Some r" ..
    thus ?thesis using Inr by (subst planLoopOn_loopBodyOn) simp
  qed
qed

lemma planLoopOn_ideal: "planLoopOn idealPlatform cfg e s = planLoop cfg e s"
proof -
  have 1: "planLoopOn idealPlatform c ee s = Some r" if "planLoop c ee s = Some r" for c ee s r
    using that
  proof (induction c ee s r rule: planLoop.raw_induct[rotated 1, consumes 1])
    case (1 f c ee s r)
    show ?case
    proof (cases "loopBody c ee s")
      case (Inl r')
      with 1(2) have "r' = r" by (simp add: loopBody_def split: if_splits)
      with Inl show ?thesis by (subst planLoopOn_loopBodyOn) (simp add: loopBodyOn_ideal)
    next
      case (Inr s')
      with 1(2) have "f c ee s' = Some r" by (simp add: loopBody_def split: if_splits)
      from 1(1)[OF this] Inr show ?thesis
        by (subst planLoopOn_loopBodyOn) (simp add: loopBodyOn_ideal)
    qed
  qed
  have 2: "p = idealPlatform \<longrightarrow> planLoop c ee s = Some r"
    if run: "planLoopOn p c ee s = Some r" for p c ee s r
  proof (rule planLoopOn.raw_induct[where P = "\<lambda>p c ee s r. p = idealPlatform \<longrightarrow> planLoop c ee s = Some r",
        OF _ run], goal_cases)
    case (1 f p c ee s r)
    show ?case
    proof
      assume p: "p = idealPlatform"
      show "planLoop c ee s = Some r"
      proof (cases "loopBody c ee s")
        case (Inl r')
        with 1(2) p have "r' = r"
          by (simp add: loopBody_def stepsOn_ideal addMinutesOn_ideal split: if_splits)
        with Inl show ?thesis by (subst planLoop_loopBody) simp
      next
        case (Inr s')
        with 1(2) p have "f idealPlatform c ee s' = Some r"
          by (simp add: loopBody_def stepsOn_ideal addMinutesOn_ideal split: if_splits)
        from 1(1)[OF this] Inr show ?thesis
          by (subst planLoop_loopBody) simp
      qed
    qed
  qed
  show ?thesis
  proof (cases "planLoop cfg e s")
    case None
    show ?thesis
    proof (cases "planLoopOn idealPlatform cfg e s")
      case (Some r)
      with 2[OF Some] None show ?thesis by simp
    qed (simp add: None)
  next
    case (Some r)
    with 1[OF Some] show ?thesis by simp
  qed
qed

lemma generatePomodoroPlanOn_ideal:
  "generatePomodoroPlanOn idealPlatform c1 c2 m = generatePomodoroPlan c1 c2 m"
  unfolding generatePomodoroPlanOn_def generatePomodoroPlan_def parseTimeOn_ideal
    parseTimeOrCountOn_ideal planLoopOn_ideal ..

section \<open>Local time at one offset\<close>

lemma TimeClip_Some: "TimeClip t = Some x \<Longrightarrow> x = t \<and> \<bar>t\<bar> \<le> 8640000000000000"
  by (simp add: TimeClip_def split: if_splits)

lemma isTimeValue_TimeClip: "isTimeValue (TimeClip t)"
  by (simp add: isTimeValue_def TimeClip_def)

lemma isTimeValue_setMinutesIn: "isTimeValue (setMinutesIn z t m)"
  by (cases t; cases m) (simp_all add: isTimeValue_def Let_def TimeClip_def)

lemma isTimeValue_addMinutesOn: "isTimeValue (addMinutesOn (zonePlatform z) t k)"
  by (simp add: addMinutesOn_def zonePlatform_def isTimeValue_setMinutesIn)

lemma addMinutesOn_zone_None: "addMinutesOn (zonePlatform z) None k = None"
  by (simp add: addMinutesOn_def zonePlatform_def getMinutesIn_def)

lemma minute_fields:
  "(t div msPerHour) * msPerHour + ((t div msPerMinute) mod 60 + k) * msPerMinute
     + t mod msPerMinute = t + k * msPerMinute"
  using addMinutes_Some[of t k]
  by (simp add: addMinutes_def getMinutes_def toInteger_of_int flip: of_int_add)

lemma addMinutesOn_fixed:
  assumes "transitions z = []"
  shows "addMinutesOn (zonePlatform z) (Some u) k = TimeClip (u + k * msPerMinute)"
proof -
  have "(u + stdOffset z) div msPerHour * msPerHour
      + ((u + stdOffset z) div msPerMinute mod 60 + k) * msPerMinute
      + (u + stdOffset z) mod msPerMinute - stdOffset z = u + k * msPerMinute"
    unfolding minute_fields by simp
  thus ?thesis
    by (simp add: addMinutesOn_def zonePlatform_def getMinutesIn_def LocalTime_def UTC_def
        assms toInteger_of_int Let_def flip: of_int_add)
qed

lemma willContinue_Time:
  "willContinue t n (Time te) \<Longrightarrow> \<exists>x y. t = Some x \<and> te = Some y \<and> x \<le> y"
  by (cases t; cases te) simp_all

lemma look_ahead_fixed:
  assumes fixed: "transitions z = []"
    and pos: "0 \<le> pomodoro cfg" "0 \<le> b"
    and t: "isTimeValue t"
    and w: "willContinue (addMinutesOn (zonePlatform z) t (b + pomodoro cfg)) n e"
  shows "willContinue
           (addMinutesOn (zonePlatform z) (addMinutesOn (zonePlatform z) t b) (pomodoro cfg)) n e"
proof (cases e)
  case (Count k)
  with w show ?thesis by simp
next
  case (Time te)
  from willContinue_Time[OF w[unfolded Time]] obtain x y where
    x: "addMinutesOn (zonePlatform z) t (b + pomodoro cfg) = Some x" and y: "te = Some y"
    and le: "x \<le> y" by blast
  from x obtain u where u: "t = Some u"
    by (cases t) (simp_all add: addMinutesOn_zone_None)
  from x u TimeClip_Some[of "u + (b + pomodoro cfg) * msPerMinute" x]
  have xe: "x = u + (b + pomodoro cfg) * msPerMinute" and xr: "\<bar>x\<bar> \<le> 8640000000000000"
    by (simp_all add: addMinutesOn_fixed[OF fixed])
  have ur: "\<bar>u\<bar> \<le> 8640000000000000" using t u by (simp add: isTimeValue_def)
  have "0 \<le> b * msPerMinute" "0 \<le> pomodoro cfg * msPerMinute"
    using pos msPerMinute_pos by simp_all
  hence "\<bar>u + b * msPerMinute\<bar> \<le> 8640000000000000"
    using xr ur unfolding xe by (simp add: algebra_simps)
  hence "addMinutesOn (zonePlatform z) t b = Some (u + b * msPerMinute)"
    by (simp add: u addMinutesOn_fixed[OF fixed] TimeClip_def)
  hence "addMinutesOn (zonePlatform z) (addMinutesOn (zonePlatform z) t b) (pomodoro cfg)
       = Some x"
    using xr by (simp add: addMinutesOn_fixed[OF fixed] TimeClip_def xe algebra_simps)
  thus ?thesis using Time y le by simp
qed

section \<open>The text of the schedule lines on a platform\<close>

lemma formatTimeOn_noPB:
  "CHR ''P'' \<notin> set (formatTimeOn P t)" "CHR ''B'' \<notin> set (formatTimeOn P t)"
  by (simp_all add: formatTimeOn_def padStart2_def numToString_noPB)

lemma isPomodoroLine_pomodoroLineOn: "isPomodoroLine (pomodoroLineOn P cfg s)"
proof -
  have "pomodoroLineOn P cfg s = (''- [ ] '' @ formatTimeOn P (currentTime s) @ '' - ''
       @ formatTimeOn P (addMinutesOn P (currentTime s) (pomodoro cfg)) @ '' '')
       @ ''Pomodoro #'' @ (numToString (Some (pomodoroCount s)) @ newline)"
    by (simp add: pomodoroLineOn_def)
  thus ?thesis unfolding isPomodoroLine_def by (simp only: sublist_appendI)
qed

lemma not_isBreakLine_pomodoroLineOn: "\<not> isBreakLine (pomodoroLineOn P cfg s)"
proof -
  have B: "CHR ''B'' \<notin> set (pomodoroLineOn P cfg s)"
    by (simp add: pomodoroLineOn_def newline_def formatTimeOn_noPB numToString_noPB)
  have "\<not> sublist '' Long Break'' (pomodoroLineOn P cfg s)"
    by (rule not_sublist_char[OF _ B]) simp
  moreover have "\<not> sublist '' Short Break'' (pomodoroLineOn P cfg s)"
    by (rule not_sublist_char[OF _ B]) simp
  ultimately show ?thesis unfolding isBreakLine_def by simp
qed

section \<open>Properties of the generator\<close>







lemma count_invariant:
  assumes "planLoop cfg e s = Some r"
    and "int (length (filter isPomodoroLine (planLines s))) = pomodoroCount s - 1"
  shows "int (length (filter isPomodoroLine (planLines r))) = pomodoroCount r - 1"
proof (rule planLoop_invariant[OF assms(1), where
      I = "\<lambda>s. int (length (filter isPomodoroLine (planLines s))) = pomodoroCount s - 1"])
  show "int (length (filter isPomodoroLine (planLines s))) = pomodoroCount s - 1" by fact
next
  fix s s' assume "int (length (filter isPomodoroLine (planLines s))) = pomodoroCount s - 1"
    "loopBody cfg e s = Inr s'"
  thus "int (length (filter isPomodoroLine (planLines s'))) = pomodoroCount s' - 1"
    by (auto simp: loopBody_def workStep_def longBreakStep_def shortBreakStep_def
        isPomodoroLine_pomodoroLine not_isPomodoroLine_longBreakLine
        not_isPomodoroLine_shortBreakLine split: if_splits)
next
  fix s r assume "int (length (filter isPomodoroLine (planLines s))) = pomodoroCount s - 1"
    "loopBody cfg e s = Inl r"
  thus "int (length (filter isPomodoroLine (planLines r))) = pomodoroCount r - 1"
    by (auto simp: loopBody_def workStep_def isPomodoroLine_pomodoroLine split: if_splits)
qed

lemma numToString_no_newline: "CHR 0x0A \<notin> set (numToString v)"
proof -
  have "CHR 0x0A \<notin> set (natToString n)" for n
    using natToString_chars[of "CHR 0x0A" n] by auto
  thus ?thesis by (cases v) (simp_all add: numToString_def)
qed

lemma formatTime_no_newline: "CHR 0x0A \<notin> set (formatTime t)"
  by (simp add: formatTime_def padStart2_def numToString_no_newline)

lemma split_js_append:
  "c \<notin> set xs \<Longrightarrow> split_js c (xs @ c # rest) = xs # split_js c rest"
  by (induction xs) auto

lemma split_js_lines:
  "\<forall>b\<in>set bs. c \<notin> set b \<Longrightarrow> split_js c (concat (map (\<lambda>b. b @ [c]) bs)) = bs @ [[]]"
  by (induction bs) (simp_all add: split_js_append)

lemma pomodoroLine_body:
  "\<exists>b. pomodoroLine cfg s = b @ [CHR 0x0A] \<and> CHR 0x0A \<notin> set b \<and> isPomodoroLine b"
proof -
  define b where "b = (''- [ ] '' @ formatTime (currentTime s) @ '' - ''
       @ formatTime (addMinutes (currentTime s) (pomodoro cfg)) @ '' '') @ ''Pomodoro #''
       @ numToString (Some (pomodoroCount s))"
  have "pomodoroLine cfg s = b @ [CHR 0x0A]"
    by (simp add: pomodoroLine_def b_def newline_def)
  moreover have "CHR 0x0A \<notin> set b"
    by (simp add: b_def formatTime_no_newline numToString_no_newline)
  moreover have "isPomodoroLine b"
    unfolding isPomodoroLine_def b_def by (rule sublist_appendI)
  ultimately show ?thesis by blast
qed

lemma longBreakLine_body:
  "\<exists>b. longBreakLine cfg s = b @ [CHR 0x0A] \<and> CHR 0x0A \<notin> set b \<and> \<not> isPomodoroLine b"
proof -
  define b where "b = ''- [ ] '' @ formatTime (currentTime s) @ '' - ''
       @ formatTime (addMinutes (currentTime s) (longBreak cfg)) @ '' Long Break''"
  have "longBreakLine cfg s = b @ [CHR 0x0A]"
    by (simp add: longBreakLine_def b_def newline_def)
  moreover have "CHR 0x0A \<notin> set b"
    by (simp add: b_def formatTime_no_newline)
  moreover have "CHR ''P'' \<notin> set b"
    by (simp add: b_def formatTime_noPB)
  hence "\<not> isPomodoroLine b"
    unfolding isPomodoroLine_def by (intro not_sublist_char[of "CHR ''P''"]) simp_all
  ultimately show ?thesis by blast
qed

lemma shortBreakLine_body:
  "\<exists>b. shortBreakLine cfg s = b @ [CHR 0x0A] \<and> CHR 0x0A \<notin> set b \<and> \<not> isPomodoroLine b"
proof -
  define b where "b = ''- [ ] '' @ formatTime (currentTime s) @ '' - ''
       @ formatTime (addMinutes (currentTime s) (shortBreak cfg)) @ '' Short Break''"
  have "shortBreakLine cfg s = b @ [CHR 0x0A]"
    by (simp add: shortBreakLine_def b_def newline_def)
  moreover have "CHR 0x0A \<notin> set b"
    by (simp add: b_def formatTime_no_newline)
  moreover have "CHR ''P'' \<notin> set b"
    by (simp add: b_def formatTime_noPB)
  hence "\<not> isPomodoroLine b"
    unfolding isPomodoroLine_def by (intro not_sublist_char[of "CHR ''P''"]) simp_all
  ultimately show ?thesis by blast
qed

lemma linesOf_workStep:
  assumes "linesOf s bs"
  shows "\<exists>bs'. linesOf (workStep cfg s) bs'"
proof -
  from pomodoroLine_body[of cfg s] obtain b where
    b: "pomodoroLine cfg s = b @ [CHR 0x0A]" "CHR 0x0A \<notin> set b" "isPomodoroLine b" by blast
  with assms have "linesOf (workStep cfg s) (bs @ [b])"
    by (simp add: linesOf_def workStep_def)
  thus ?thesis ..
qed

lemma linesOf_longBreakStep:
  assumes "linesOf s bs"
  shows "\<exists>bs'. linesOf (longBreakStep cfg s) bs'"
proof (cases "includeLongBreak cfg")
  case True
  from longBreakLine_body[of cfg s] obtain b where
    b: "longBreakLine cfg s = b @ [CHR 0x0A]" "CHR 0x0A \<notin> set b" "\<not> isPomodoroLine b" by blast
  with assms True have "linesOf (longBreakStep cfg s) (bs @ [b])"
    by (simp add: linesOf_def longBreakStep_def)
  thus ?thesis ..
next
  case False
  with assms have "linesOf (longBreakStep cfg s) bs"
    by (simp add: linesOf_def longBreakStep_def)
  thus ?thesis ..
qed

lemma linesOf_shortBreakStep:
  assumes "linesOf s bs"
  shows "\<exists>bs'. linesOf (shortBreakStep cfg s) bs'"
proof (cases "includeShortBreak cfg")
  case True
  from shortBreakLine_body[of cfg s] obtain b where
    b: "shortBreakLine cfg s = b @ [CHR 0x0A]" "CHR 0x0A \<notin> set b" "\<not> isPomodoroLine b" by blast
  with assms True have "linesOf (shortBreakStep cfg s) (bs @ [b])"
    by (simp add: linesOf_def shortBreakStep_def)
  thus ?thesis ..
next
  case False
  with assms have "linesOf (shortBreakStep cfg s) bs"
    by (simp add: linesOf_def shortBreakStep_def)
  thus ?thesis ..
qed

lemma text_lines_invariant:
  assumes "planLoop cfg e (initialState startTime) = Some r"
  shows "\<exists>bs. linesOf r bs"
proof (rule planLoop_invariant[OF assms, where I = "\<lambda>s. \<exists>bs. linesOf s bs"])
  have "linesOf (initialState startTime) []"
    by (simp add: linesOf_def initialState_def)
  thus "\<exists>bs. linesOf (initialState startTime) bs" ..
next
  fix s s' assume "\<exists>bs. linesOf s bs" "loopBody cfg e s = Inr s'"
  thus "\<exists>bs. linesOf s' bs"
    using linesOf_workStep linesOf_longBreakStep linesOf_shortBreakStep
    by (auto simp: loopBody_def split: if_splits) blast+
next
  fix s r assume "\<exists>bs. linesOf s bs" "loopBody cfg e s = Inl r"
  thus "\<exists>bs. linesOf r bs"
    using linesOf_workStep
    by (auto simp: loopBody_def split: if_splits)
qed

lemma text_lines_count:
  assumes "planLoop cfg e (initialState startTime) = Some r"
  shows "int (length (filter isPomodoroLine (split_js CHR 0x0A (concat (planLines r)))))
       = pomodoroCount r - 1"
proof -
  from text_lines_invariant[OF assms] obtain bs where bs: "linesOf r bs" ..
  hence "split_js CHR 0x0A (concat (planLines r)) = bs @ [[]]"
    by (simp add: linesOf_def split_js_lines)
  moreover have "\<not> isPomodoroLine []"
    by (simp add: isPomodoroLine_def)
  ultimately show ?thesis using bs by (simp add: linesOf_def)
qed

text \<open>
  Claim C7. When the loop ends, the work-interval count \<open>pomodoroCount - 1\<close> is the number
  of pomodoro lines written, which is the number of lines of the schedule text that hold
  \<open>Pomodoro #\<close>, and the work minutes of the statistics block are the pomodoro length times
  that number.
\<close>
theorem work_count_matches_lines:
  assumes "planLoop cfg e (initialState startTime) = Some r"
  shows "pomodoroCount r - 1 = int (length (filter isPomodoroLine (planLines r)))
       \<and> pomodoroCount r - 1 =
           int (length (filter isPomodoroLine (split_js CHR 0x0A (concat (planLines r)))))
       \<and> totalWorkMinutes cfg r = pomodoro cfg * int (length (filter isPomodoroLine (planLines r)))"
proof -
  have "int (length (filter isPomodoroLine (planLines r))) = pomodoroCount r - 1"
    by (rule count_invariant[OF assms]) (simp add: initialState_def)
  thus ?thesis using text_lines_count[OF assms] by (simp add: totalWorkMinutes_def)
qed

lemma breaksOn_invariant:
  assumes run: "planLoopOn P cfg e s0 = Some r"
    and init: "planLines s0 = []"
    and D_add: "\<And>t k. D (addMinutesOn P t k)"
    and look: "\<And>t b n. D t \<Longrightarrow> b = longBreak cfg \<or> b = shortBreak cfg \<Longrightarrow>
        willContinue (addMinutesOn P t (b + pomodoro cfg)) n e \<Longrightarrow>
        willContinue (addMinutesOn P (addMinutesOn P t b) (pomodoro cfg)) n e"
  shows "breaksFollowed (planLines r)
       \<and> (planLines r = [] \<or> isPomodoroLine (last (planLines r)))"
proof -
  define I where "I = (\<lambda>s :: loop_state.
        successively (\<lambda>a b. isBreakLine a \<longrightarrow> isPomodoroLine b) (planLines s)
        \<and> (planLines s = []
           \<or> isPomodoroLine (last (planLines s)) \<and> \<not> isBreakLine (last (planLines s))
           \<or> willContinue (addMinutesOn P (currentTime s) (pomodoro cfg)) (pomodoroCount s) e))"
  show ?thesis
  proof (rule planLoopOn_invariant[OF run, where I = I])
    show "I s0" using init by (simp add: I_def)
  next
    fix s s'
    assume I: "I s" and body: "loopBodyOn P cfg e s = Inr s'"
    have w: "successively (\<lambda>a b. isBreakLine a \<longrightarrow> isPomodoroLine b)
               (planLines s @ [pomodoroLineOn P cfg s])"
      using I by (simp add: I_def successively_append_iff isPomodoroLine_pomodoroLineOn)
    have D: "D (currentTime (workStepOn P cfg s))"
      by (simp add: workStepOn_def D_add)
    from body consider
        (long) "s' = longBreakStepOn P cfg (workStepOn P cfg s)"
          "willContinue
             (addMinutesOn P (currentTime (workStepOn P cfg s)) (longBreak cfg + pomodoro cfg))
             (pomodoroCount (workStepOn P cfg s)) e"
      | (short) "s' = shortBreakStepOn P cfg (workStepOn P cfg s)"
          "willContinue
             (addMinutesOn P (currentTime (workStepOn P cfg s)) (shortBreak cfg + pomodoro cfg))
             (pomodoroCount (workStepOn P cfg s)) e"
      by (auto simp: loopBodyOn_def add.commute split: if_splits)
    thus "I s'"
    proof cases
      case long
      have "willContinue (addMinutesOn P (currentTime s') (pomodoro cfg)) (pomodoroCount s') e"
        using look[OF D _ long(2)] by (simp add: long(1) longBreakStepOn_def)
      moreover have "successively (\<lambda>a b. isBreakLine a \<longrightarrow> isPomodoroLine b) (planLines s')"
        using w unfolding long(1)
        by (simp add: longBreakStepOn_def workStepOn_def successively_append_iff
            not_isBreakLine_pomodoroLineOn)
      ultimately show ?thesis by (simp add: I_def)
    next
      case short
      have "willContinue (addMinutesOn P (currentTime s') (pomodoro cfg)) (pomodoroCount s') e"
        using look[OF D _ short(2)] by (simp add: short(1) shortBreakStepOn_def)
      moreover have "successively (\<lambda>a b. isBreakLine a \<longrightarrow> isPomodoroLine b) (planLines s')"
        using w unfolding short(1)
        by (simp add: shortBreakStepOn_def workStepOn_def successively_append_iff
            not_isBreakLine_pomodoroLineOn)
      ultimately show ?thesis by (simp add: I_def)
    qed
  next
    fix s r
    assume I: "I s" and body: "loopBodyOn P cfg e s = Inl r"
    have w: "successively (\<lambda>a b. isBreakLine a \<longrightarrow> isPomodoroLine b)
               (planLines s @ [pomodoroLineOn P cfg s])"
      using I by (simp add: I_def successively_append_iff isPomodoroLine_pomodoroLineOn)
    from body consider
        (stop) "r = s"
          "\<not> willContinue (addMinutesOn P (currentTime s) (pomodoro cfg)) (pomodoroCount s) e"
      | (break) "r = workStepOn P cfg s"
      by (auto simp: loopBodyOn_def split: if_splits)
    thus "breaksFollowed (planLines r)
         \<and> (planLines r = [] \<or> isPomodoroLine (last (planLines r)))"
    proof cases
      case stop
      with I show ?thesis by (auto simp: I_def breaksFollowed_def)
    next
      case break
      with w show ?thesis
        by (simp add: breaksFollowed_def workStepOn_def isPomodoroLine_pomodoroLineOn
            not_isBreakLine_pomodoroLineOn)
    qed
  qed
qed

lemma loopBodyOn_Inr:
  assumes "loopBodyOn P cfg e s = Inr s'"
  shows "willContinue (addMinutesOn P (currentTime s) (pomodoro cfg)) (pomodoroCount s) e"
    and "pomodoroCount s' = pomodoroCount s + 1"
    and "currentTime s' = addMinutesOn P (addMinutesOn P (currentTime s) (pomodoro cfg))
                            (longBreak cfg)
         \<or> currentTime s' = addMinutesOn P (addMinutesOn P (currentTime s) (pomodoro cfg))
                            (shortBreak cfg)"
  using assms
  by (auto simp: loopBodyOn_def workStepOn_def longBreakStepOn_def shortBreakStepOn_def
        split: if_splits)

lemma planLoopOn_Count_total: "\<exists>r. planLoopOn P cfg (Count n) s = Some r"
proof (rule planLoopOn_terminates[where I = "\<lambda>s. True"
        and f = "\<lambda>s. nat (n + 1 - pomodoroCount s)"])
  fix s s' assume "loopBodyOn P cfg (Count n) s = Inr s'"
  from loopBodyOn_Inr(1,2)[OF this]
  show "True \<and> nat (n + 1 - pomodoroCount s') < nat (n + 1 - pomodoroCount s)"
    by simp
qed simp

lemma loopBodyOn_decreases_fixed:
  assumes fixed: "transitions z = []"
    and pos: "0 < pomodoro cfg" "0 \<le> shortBreak cfg" "0 \<le> longBreak cfg"
    and body: "loopBodyOn (zonePlatform z) cfg e s = Inr s'"
  shows "loopMeasure e s' < loopMeasure e s"
proof (cases e)
  case (Count n)
  with loopBodyOn_Inr(1,2)[OF body] show ?thesis
    by (simp add: loopMeasure_def)
next
  case (Time te)
  note wc = loopBodyOn_Inr(1)[OF body]
  from willContinue_Time[OF wc[unfolded Time]] obtain x t where
    x: "addMinutesOn (zonePlatform z) (currentTime s) (pomodoro cfg) = Some x"
    and t: "te = Some t" and le: "x \<le> t" by blast
  from x obtain c where c: "currentTime s = Some c"
    by (cases "currentTime s") (simp_all add: addMinutesOn_zone_None)
  from x c TimeClip_Some[of "c + pomodoro cfg * msPerMinute" x]
  have xe: "x = c + pomodoro cfg * msPerMinute"
    by (simp add: addMinutesOn_fixed[OF fixed])
  have pp: "0 < pomodoro cfg * msPerMinute" using pos(1) msPerMinute_pos by simp
  from loopBodyOn_Inr(3)[OF body] obtain b where b: "0 \<le> b"
    and c': "currentTime s' = TimeClip (x + b * msPerMinute)"
    using pos by (auto simp: x addMinutesOn_fixed[OF fixed])
  have bb: "0 \<le> b * msPerMinute" using b msPerMinute_pos by simp
  show ?thesis
  proof (cases "currentTime s'")
    case None
    thus ?thesis using Time t c le pp xe by (simp add: loopMeasure_def)
  next
    case (Some y)
    with c' TimeClip_Some[of "x + b * msPerMinute" y] have "y = x + b * msPerMinute" by simp
    thus ?thesis using Some Time t c le pp bb xe by (simp add: loopMeasure_def)
  qed
qed

lemma planLoopOn_fixed_total:
  assumes "transitions z = []" "0 < pomodoro cfg" "0 \<le> shortBreak cfg" "0 \<le> longBreak cfg"
  shows "\<exists>r. planLoopOn (zonePlatform z) cfg e s = Some r"
  by (rule planLoopOn_terminates[where I = "\<lambda>s. True" and f = "loopMeasure e"])
     (simp_all add: loopBodyOn_decreases_fixed[OF assms])

text \<open>
  Where no plan ends on a break. With a count for its end the loop ends on every platform.
  With a time for its end it ends on the \<open>Date\<close> of the standard when local time keeps one
  offset, the pomodoro length is above zero and the break lengths are not below zero. In
  both cases every break line of the schedule is followed by a pomodoro line, and the last
  line, when there is one, is a pomodoro line and no break line. On every platform a pass
  that ends the loop has written nothing, or the pomodoro line alone: a failed look-ahead
  leaves before the break line.
\<close>
lemma no_trailing_break_one_offset:
  "(\<exists>r. planLoopOn P cfg (Count n) (initialState startTime) = Some r
        \<and> breaksFollowed (planLines r)
        \<and> (planLines r = [] \<or> isPomodoroLine (last (planLines r))))
   \<and> (transitions z = [] \<and> 0 < pomodoro cfg \<and> 0 \<le> shortBreak cfg \<and> 0 \<le> longBreak cfg \<longrightarrow>
        (\<exists>r. planLoopOn (zonePlatform z) cfg e (initialState startTime) = Some r
           \<and> breaksFollowed (planLines r)
           \<and> (planLines r = [] \<or> isPomodoroLine (last (planLines r)))))
   \<and> (\<forall>r. loopBodyOn P cfg e s = Inl r \<longrightarrow>
        planLines r = planLines s \<or> planLines r = planLines s @ [pomodoroLineOn P cfg s])"
proof -
  have 1: "\<exists>r. planLoopOn P cfg (Count n) (initialState startTime) = Some r
        \<and> breaksFollowed (planLines r)
        \<and> (planLines r = [] \<or> isPomodoroLine (last (planLines r)))"
  proof -
    from planLoopOn_Count_total obtain r where
      r: "planLoopOn P cfg (Count n) (initialState startTime) = Some r" by blast
    have "breaksFollowed (planLines r)
        \<and> (planLines r = [] \<or> isPomodoroLine (last (planLines r)))"
      by (rule breaksOn_invariant[OF r, where D = "\<lambda>t. True"]) (simp_all add: initialState_def)
    with r show ?thesis by blast
  qed
  have 2: "\<exists>r. planLoopOn (zonePlatform z) cfg e (initialState startTime) = Some r
           \<and> breaksFollowed (planLines r)
           \<and> (planLines r = [] \<or> isPomodoroLine (last (planLines r)))"
    if h: "transitions z = [] \<and> 0 < pomodoro cfg \<and> 0 \<le> shortBreak cfg \<and> 0 \<le> longBreak cfg"
  proof -
    from h planLoopOn_fixed_total[of z cfg e "initialState startTime"] obtain r where
      r: "planLoopOn (zonePlatform z) cfg e (initialState startTime) = Some r" by blast
    have "breaksFollowed (planLines r)
        \<and> (planLines r = [] \<or> isPomodoroLine (last (planLines r)))"
    proof (rule breaksOn_invariant[OF r, where D = isTimeValue])
      show "planLines (initialState startTime) = []" by (simp add: initialState_def)
    next
      fix t k show "isTimeValue (addMinutesOn (zonePlatform z) t k)"
        by (rule isTimeValue_addMinutesOn)
    next
      fix t b n
      assume "isTimeValue t" "b = longBreak cfg \<or> b = shortBreak cfg"
        "willContinue (addMinutesOn (zonePlatform z) t (b + pomodoro cfg)) n e"
      thus "willContinue
          (addMinutesOn (zonePlatform z) (addMinutesOn (zonePlatform z) t b) (pomodoro cfg)) n e"
        using h by (intro look_ahead_fixed) auto
    qed
    with r show ?thesis by blast
  qed
  have 3: "planLines r = planLines s \<or> planLines r = planLines s @ [pomodoroLineOn P cfg s]"
    if "loopBodyOn P cfg e s = Inl r" for r
    using that by (auto simp: loopBodyOn_def workStepOn_def split: if_splits)
  from 1 2 3 show ?thesis by blast
qed

lemma loopBody_toggles:
  assumes "currentTime s = currentTime s'" "groupCount s = groupCount s'"
    "totalRestTime s = totalRestTime s'" "pomodoroCount s = pomodoroCount s'"
    "filter isPomodoroLine (planLines s) = filter isPomodoroLine (planLines s')"
  shows "rel_sum
     (\<lambda>r r'. currentTime r = currentTime r' \<and> groupCount r = groupCount r'
        \<and> totalRestTime r = totalRestTime r' \<and> pomodoroCount r = pomodoroCount r'
        \<and> filter isPomodoroLine (planLines r) = filter isPomodoroLine (planLines r'))
     (\<lambda>r r'. currentTime r = currentTime r' \<and> groupCount r = groupCount r'
        \<and> totalRestTime r = totalRestTime r' \<and> pomodoroCount r = pomodoroCount r'
        \<and> filter isPomodoroLine (planLines r) = filter isPomodoroLine (planLines r'))
     (loopBody cfg e s)
     (loopBody (cfg\<lparr>includeShortBreak := a, includeLongBreak := b\<rparr>) e s')"
proof -
  have p: "pomodoroLine (cfg\<lparr>includeShortBreak := a, includeLongBreak := b\<rparr>) s'
      = pomodoroLine cfg s"
    using assms by (simp add: pomodoroLine_def)
  show ?thesis
    using assms
    by (simp add: loopBody_def workStep_def longBreakStep_def shortBreakStep_def p
        isPomodoroLine_pomodoroLine not_isPomodoroLine_longBreakLine
        not_isPomodoroLine_shortBreakLine)
qed

text \<open>
  Claim C10. Setting \<open>includeShortBreak\<close> and \<open>includeLongBreak\<close> to any other values
  leaves the run of the loop as it is but for the break lines: it ends or not alike, and
  ends with the same current time, group count, rest time, pomodoro count and pomodoro
  lines, hence with the same statistics block. The break steps move the clock and add to
  the rest time whether or not the line is written.
\<close>
theorem toggles_only_hide_lines:
  "rel_option
     (\<lambda>r r'. currentTime r = currentTime r' \<and> groupCount r = groupCount r'
        \<and> totalRestTime r = totalRestTime r' \<and> pomodoroCount r = pomodoroCount r'
        \<and> filter isPomodoroLine (planLines r) = filter isPomodoroLine (planLines r')
        \<and> statsInfo cfg r = statsInfo (cfg\<lparr>includeShortBreak := a, includeLongBreak := b\<rparr>) r')
     (planLoop cfg e (initialState startTime))
     (planLoop (cfg\<lparr>includeShortBreak := a, includeLongBreak := b\<rparr>) e (initialState startTime))
   \<and> currentTime (shortBreakStep cfg s) = addMinutes (currentTime s) (shortBreak cfg)
   \<and> totalRestTime (shortBreakStep cfg s) = totalRestTime s + shortBreak cfg
   \<and> currentTime (longBreakStep cfg s) = addMinutes (currentTime s) (longBreak cfg)
   \<and> totalRestTime (longBreakStep cfg s) = totalRestTime s + longBreak cfg"
proof -
  have "rel_option
     (\<lambda>r r'. currentTime r = currentTime r' \<and> groupCount r = groupCount r'
        \<and> totalRestTime r = totalRestTime r' \<and> pomodoroCount r = pomodoroCount r'
        \<and> filter isPomodoroLine (planLines r) = filter isPomodoroLine (planLines r'))
     (planLoop cfg e (initialState startTime))
     (planLoop (cfg\<lparr>includeShortBreak := a, includeLongBreak := b\<rparr>) e (initialState startTime))"
    by (rule planLoop_simulation[where R = "\<lambda>r r'. currentTime r = currentTime r'
          \<and> groupCount r = groupCount r'
          \<and> totalRestTime r = totalRestTime r' \<and> pomodoroCount r = pomodoroCount r'
          \<and> filter isPomodoroLine (planLines r) = filter isPomodoroLine (planLines r')"])
      (simp_all add: loopBody_toggles)
  hence "rel_option
     (\<lambda>r r'. currentTime r = currentTime r' \<and> groupCount r = groupCount r'
        \<and> totalRestTime r = totalRestTime r' \<and> pomodoroCount r = pomodoroCount r'
        \<and> filter isPomodoroLine (planLines r) = filter isPomodoroLine (planLines r')
        \<and> statsInfo cfg r = statsInfo (cfg\<lparr>includeShortBreak := a, includeLongBreak := b\<rparr>) r')
     (planLoop cfg e (initialState startTime))
     (planLoop (cfg\<lparr>includeShortBreak := a, includeLongBreak := b\<rparr>) e (initialState startTime))"
    by (rule option.rel_mono_strong) (simp add: statsInfo_def totalWorkMinutes_def)
  thus ?thesis by (simp add: shortBreakStep_def longBreakStep_def)
qed

lemma planLoop_Count_0:
  "planLoop cfg (Count 0) (initialState startTime) = Some (initialState startTime)"
  by (subst planLoop.simps) (simp add: initialState_def)

lemma generate_Count_0:
  assumes "fst (parseTimeOrCount c2 (endStr m)) = Count 0" and "resultEl m = Some h"
  shows "generatePomodoroPlan c1 c2 m =
     Some (Inr (m\<lparr>resultMarkdown := [],
                  notices := notices m @ snd (parseTimeOrCount c2 (endStr m)),
                  resultEl := Some (h @ [[]])\<rparr>))"
  using assms
  by (simp add: generatePomodoroPlan_def Let_def planLoop_Count_0) (simp add: initialState_def)

text \<open>
  Claim C3. When the end condition is the count 0, for every start and all settings, the
  loop ends where it started, with a work-interval count of 0 and no lines, and
  \<open>generatePomodoroPlan\<close> leaves the empty plan: the text is empty, the result element is
  cleared, no statistics block is added and the settings are not saved, whatever
  \<open>includeStats\<close> is. The result element exists, as it does once the form is open.
\<close>
theorem count_zero_empty_plan:
  assumes "fst (parseTimeOrCount c2 (endStr m)) = Count 0" and "resultEl m = Some h"
  shows "planLoop (settings m) (Count 0) (initialState (parseTime c1 (start m)))
           = Some (initialState (parseTime c1 (start m)))
       \<and> pomodoroCount (initialState (parseTime c1 (start m))) - 1 = 0
       \<and> planLines (initialState (parseTime c1 (start m))) = []
       \<and> generatePomodoroPlan c1 c2 m =
           Some (Inr (m\<lparr>resultMarkdown := [],
                        notices := notices m @ snd (parseTimeOrCount c2 (endStr m)),
                        resultEl := Some (h @ [[]])\<rparr>))"
  using generate_Count_0[OF assms] by (simp add: planLoop_Count_0) (simp add: initialState_def)







lemma generate_appends:
  assumes "generatePomodoroPlan c1 c2 m = Some (Inr m')" and "resultEl m = Some h"
  shows "\<exists>t. resultEl m' = Some (h @ [t])"
  using assms
  by (auto simp: generatePomodoroPlan_def Let_def split: option.splits if_splits)

text \<open>
  Claim C9. When the edited text of a numeric field is not a number for \<open>parseInt\<close>, each
  of the four handlers returns the modal as it was: the settings keep their values, and no
  generation has run, since a generation writes to the result element.
\<close>
theorem numeric_edit_discarded:
  assumes "isNaN (parseInt v)"
  shows "onChangePomodoro c1 c2 v m = Some (Inr m)
       \<and> onChangeShortBreak c1 c2 v m = Some (Inr m)
       \<and> onChangeLongBreak c1 c2 v m = Some (Inr m)
       \<and> onChangeGroup c1 c2 v m = Some (Inr m)
       \<and> (\<forall>a b m0. resultEl m0 = resultEl m \<and> resultEl m \<noteq> None
             \<longrightarrow> generatePomodoroPlan a b m0 \<noteq> Some (Inr m))"
proof -
  have "generatePomodoroPlan a b m0 \<noteq> Some (Inr m)"
    if "resultEl m0 = resultEl m" "resultEl m \<noteq> None" for a b m0
  proof
    assume g: "generatePomodoroPlan a b m0 = Some (Inr m)"
    from that obtain h where h: "resultEl m0 = Some h" by auto
    from generate_appends[OF g h] that(1) h show False by auto
  qed
  thus ?thesis using assms
    by (simp add: onChangePomodoro_def onChangeShortBreak_def onChangeLongBreak_def
        onChangeGroup_def)
qed

section \<open>The clock\<close>

lemma formatTime_atMinute: "formatTime (atMinute c x) = formatTime (atMinute c' x)"
  by (simp add: formatTime_def get_atMinute)

lemma sameMinuteOfDay_format:
  "sameMinuteOfDay c c' t t' \<Longrightarrow> formatTime t = formatTime t'"
  using formatTime_atMinute by (auto simp: sameMinuteOfDay_def)

lemma sameMinuteOfDay_add:
  "sameMinuteOfDay c c' t t' \<Longrightarrow> sameMinuteOfDay c c' (addMinutes t k) (addMinutes t' k)"
  by (auto simp: sameMinuteOfDay_def addMinutes_None addMinutes_atMinute)

lemma sameMinuteOfDay_parseTime: "sameMinuteOfDay c c' (parseTime c s) (parseTime c' s)"
  by (cases "minutesOfDay s") (auto simp: sameMinuteOfDay_def parseTime_minutesOfDay)

text \<open>Two end conditions that agree but for the clock reading they were parsed with.\<close>

lemma willContinue_clock:
  assumes t: "sameMinuteOfDay c1 c1' t t'"
    and e: "e' = e \<and> (\<forall>d. e \<noteq> Time (Some d))
            \<or> (\<exists>y. e = Time (atMinute c2 y) \<and> e' = Time (atMinute c2' y)
                  \<and> clockPairOk c1 c2 \<and> clockPairOk c1' c2')"
  shows "willContinue t n e = willContinue t' n e'"
  using e
proof
  assume a: "e' = e \<and> (\<forall>d. e \<noteq> Time (Some d))"
  show ?thesis
  proof (cases e)
    case (Count k)
    with a show ?thesis by simp
  next
    case (Time d)
    with a have "d = None" by (cases d) auto
    with a Time show ?thesis by simp
  qed
next
  assume "\<exists>y. e = Time (atMinute c2 y) \<and> e' = Time (atMinute c2' y)
              \<and> clockPairOk c1 c2 \<and> clockPairOk c1' c2'"
  then obtain y where y: "e = Time (atMinute c2 y)" "e' = Time (atMinute c2' y)"
    and ok: "clockPairOk c1 c2" "clockPairOk c1' c2'" by blast
  from t show ?thesis unfolding sameMinuteOfDay_def
  proof (elim disjE conjE exE)
    assume "t = None" "t' = None"
    thus ?thesis using y by (simp add: atMinute_def)
  next
    fix x assume "t = atMinute c1 x" "t' = atMinute c1' x"
    thus ?thesis using y ok by (simp add: atMinute_le clockPairOk_def)
  qed
qed

lemma loopBody_clock:
  assumes R: "sameButClock c1 c1' s s'"
    and e: "e' = e \<and> (\<forall>d. e \<noteq> Time (Some d))
            \<or> (\<exists>y. e = Time (atMinute c2 y) \<and> e' = Time (atMinute c2' y)
                  \<and> clockPairOk c1 c2 \<and> clockPairOk c1' c2')"
  shows "rel_sum (sameButClock c1 c1') (sameButClock c1 c1')
           (loopBody cfg e s) (loopBody cfg e' s')"
proof -
  from R have T: "sameMinuteOfDay c1 c1' (currentTime s) (currentTime s')"
    and eqs: "groupCount s = groupCount s'" "totalRestTime s = totalRestTime s'"
      "pomodoroCount s = pomodoroCount s'" "planLines s = planLines s'"
    by (simp_all add: sameButClock_def)
  note Tk = sameMinuteOfDay_add[OF T]
  have f: "formatTime (currentTime s) = formatTime (currentTime s')"
    "formatTime (addMinutes (currentTime s) k) = formatTime (addMinutes (currentTime s') k)" for k
    using sameMinuteOfDay_format[OF T] sameMinuteOfDay_format[OF Tk] by simp_all
  have w: "willContinue (addMinutes (currentTime s) k) n e
         = willContinue (addMinutes (currentTime s') k) n e'" for k n
    by (rule willContinue_clock[OF Tk e])
  have W: "sameButClock c1 c1' (workStep cfg s) (workStep cfg s')"
    using eqs Tk f by (simp add: sameButClock_def workStep_def pomodoroLine_def)
  have L: "sameButClock c1 c1' (longBreakStep cfg (workStep cfg s))
             (longBreakStep cfg (workStep cfg s'))"
    using eqs Tk sameMinuteOfDay_add[OF Tk] f
    by (simp add: sameButClock_def workStep_def longBreakStep_def pomodoroLine_def
        longBreakLine_def addMinutes_add)
  have S: "sameButClock c1 c1' (shortBreakStep cfg (workStep cfg s))
             (shortBreakStep cfg (workStep cfg s'))"
    using eqs Tk sameMinuteOfDay_add[OF Tk] f
    by (simp add: sameButClock_def workStep_def shortBreakStep_def pomodoroLine_def
        shortBreakLine_def addMinutes_add)
  have c: "currentTime (workStep cfg s) = addMinutes (currentTime s) (pomodoro cfg)"
    "currentTime (workStep cfg s') = addMinutes (currentTime s') (pomodoro cfg)"
    "pomodoroCount (workStep cfg s) = pomodoroCount s' + 1"
    "pomodoroCount (workStep cfg s') = pomodoroCount s' + 1"
    "groupCount (workStep cfg s) = groupCount s' + 1"
    "groupCount (workStep cfg s') = groupCount s' + 1"
    using eqs by (simp_all add: workStep_def)
  show ?thesis
    unfolding loopBody_def c addMinutes_add eqs w
    using W L S R by simp
qed

lemma planLoop_clock:
  assumes R: "sameButClock c1 c1' s s'"
    and e: "e' = e \<and> (\<forall>d. e \<noteq> Time (Some d))
            \<or> (\<exists>y. e = Time (atMinute c2 y) \<and> e' = Time (atMinute c2' y)
                  \<and> clockPairOk c1 c2 \<and> clockPairOk c1' c2')"
  shows "rel_option (sameButClock c1 c1') (planLoop cfg e s) (planLoop cfg e' s')"
  by (rule planLoop_simulation[where R = "sameButClock c1 c1'", OF R])
     (rule loopBody_clock[OF _ e])

lemma parseTimeOrCount_clock:
  "snd (parseTimeOrCount c2' en) = snd (parseTimeOrCount c2 en)
   \<and> (fst (parseTimeOrCount c2' en) = fst (parseTimeOrCount c2 en)
        \<and> (\<forall>d. fst (parseTimeOrCount c2 en) \<noteq> Time (Some d))
      \<or> (\<exists>y. fst (parseTimeOrCount c2 en) = Time (atMinute c2 y)
             \<and> fst (parseTimeOrCount c2' en) = Time (atMinute c2' y)))"
proof (cases en)
  case None
  thus ?thesis by (simp add: parseTimeOrCount_def)
next
  case (Some s)
  show ?thesis
  proof (cases "minutesOfDay s")
    case None
    with Some show ?thesis
      by (simp add: parseTimeOrCount_def parseTime_minutesOfDay Let_def)
  next
    case (Some y)
    with \<open>en = Some s\<close> show ?thesis
      by (simp add: parseTimeOrCount_def parseTime_minutesOfDay Let_def atMinute_def)
  qed
qed

lemma generate_clock:
  assumes "clockPairOk c1 c2 \<and> clockPairOk c1' c2'
           \<or> (\<forall>c d. fst (parseTimeOrCount c (endStr m)) \<noteq> Time (Some d))"
  shows "generatePomodoroPlan c1 c2 m = generatePomodoroPlan c1' c2' m"
proof -
  define e where "e = fst (parseTimeOrCount c2 (endStr m))"
  define e' where "e' = fst (parseTimeOrCount c2' (endStr m))"
  define s0 where "s0 = initialState (parseTime c1 (start m))"
  define s0' where "s0' = initialState (parseTime c1' (start m))"
  have n: "snd (parseTimeOrCount c2' (endStr m)) = snd (parseTimeOrCount c2 (endStr m))"
    using parseTimeOrCount_clock[of c2' "endStr m" c2] by simp
  have E: "e' = e \<and> (\<forall>d. e \<noteq> Time (Some d))
            \<or> (\<exists>y. e = Time (atMinute c2 y) \<and> e' = Time (atMinute c2' y)
                  \<and> clockPairOk c1 c2 \<and> clockPairOk c1' c2')"
  proof -
    from parseTimeOrCount_clock[of c2' "endStr m" c2] consider
        (same) "e' = e" "\<forall>d. e \<noteq> Time (Some d)"
      | (time) y where "e = Time (atMinute c2 y)" "e' = Time (atMinute c2' y)"
      unfolding e_def e'_def by blast
    thus ?thesis
    proof cases
      case same
      thus ?thesis by simp
    next
      case time
      hence "\<not> (\<forall>c d. fst (parseTimeOrCount c (endStr m)) \<noteq> Time (Some d))"
        unfolding e_def atMinute_def by blast
      with assms time show ?thesis by blast
    qed
  qed
  have R: "sameButClock c1 c1' s0 s0'"
    by (simp add: s0_def s0'_def sameButClock_def initialState_def sameMinuteOfDay_parseTime)
  have rel: "rel_option (sameButClock c1 c1') (planLoop (settings m) e s0)
               (planLoop (settings m) e' s0')"
    by (rule planLoop_clock[OF R E])
  show ?thesis
  proof (cases "planLoop (settings m) e s0")
    case None
    with rel have "planLoop (settings m) e' s0' = None"
      by (cases "planLoop (settings m) e' s0'") simp_all
    with None show ?thesis
      by (simp add: generatePomodoroPlan_def Let_def e_def e'_def s0_def s0'_def)
  next
    case (Some r)
    with rel obtain r' where r': "planLoop (settings m) e' s0' = Some r'"
      and rr: "sameButClock c1 c1' r r'"
      by (cases "planLoop (settings m) e' s0'") simp_all
    from rr have eq: "planLines r' = planLines r" "pomodoroCount r' = pomodoroCount r"
      "statsInfo (settings m) r' = statsInfo (settings m) r"
      by (simp_all add: sameButClock_def statsInfo_def totalWorkMinutes_def)
    show ?thesis
      unfolding generatePomodoroPlan_def Let_def e_def[symmetric] e'_def[symmetric]
        s0_def[symmetric] s0'_def[symmetric] n Some r' option.case eq ..

  qed
qed

lemma planText_generate_cong:
  assumes "settings m = settings m'" "start m = start m'" "endStr m = endStr m'"
    "resultEl m \<noteq> None" "resultEl m' \<noteq> None"
  shows "planText (generatePomodoroPlan c1 c2 m) = planText (generatePomodoroPlan c1 c2 m')"
  using assms
  by (auto simp: generatePomodoroPlan_def planText_def Let_def split: option.splits)

lemma atMinute_cmp:
  assumes "c1 div msPerDay = c2 div msPerDay"
  shows "x < y \<Longrightarrow> willContinue (atMinute c1 x) n (Time (atMinute c2 y))"
    and "y < x \<Longrightarrow> \<not> willContinue (atMinute c1 x) n (Time (atMinute c2 y))"
proof -
  have r: "0 \<le> c1 mod msPerMinute" "c1 mod msPerMinute < msPerMinute"
    "0 \<le> c2 mod msPerMinute" "c2 mod msPerMinute < msPerMinute"
    using msPerMinute_pos by simp_all
  have step: "a * msPerMinute + msPerMinute \<le> b * msPerMinute" if "a < b" for a b :: int
  proof -
    from that have "a + 1 \<le> b" by simp
    hence "(a + 1) * msPerMinute \<le> b * msPerMinute"
      using msPerMinute_pos by (simp only: mult_le_cancel_right) simp
    thus ?thesis by (simp add: algebra_simps)
  qed
  {
    assume "x < y"
    from step[OF this] r have
      "x * msPerMinute + c1 mod msPerMinute \<le> y * msPerMinute + c2 mod msPerMinute"
      by linarith
    thus "willContinue (atMinute c1 x) n (Time (atMinute c2 y))"
      using assms by (simp add: atMinute_def)
  }
  {
    assume "y < x"
    from step[OF this] r have
      "\<not> x * msPerMinute + c1 mod msPerMinute \<le> y * msPerMinute + c2 mod msPerMinute"
      by linarith
    thus "\<not> willContinue (atMinute c1 x) n (Time (atMinute c2 y))"
      using assms by (simp add: atMinute_def)
  }
qed

text \<open>
  The end time is an inclusive bound on the end of the next pomodoro: a date continues up
  to itself, and so does a minute of the day when the seconds of the start reading are not
  after those of the end reading. With start 09:00, end 09:30 and a pomodoro of 25 minutes,
  break lengths not below zero and both clock readings on one day, the first test passes
  (09:25 is not after 09:30), the loop writes the one line 09:00 - 09:25 and stops at the
  look-ahead, with a work-interval count of 1.
\<close>
lemma example_end_time_one_day:
  assumes "start m = ''09:00''" and "endStr m = Some ''09:30''"
    and "pomodoro (settings m) = 25"
    and "0 \<le> shortBreak (settings m)" and "0 \<le> longBreak (settings m)"
    and "c1 div msPerDay = c2 div msPerDay"
  shows "willContinue (Some t) n (Time (Some t))
       \<and> (c1 mod msPerMinute \<le> c2 mod msPerMinute \<longrightarrow>
             willContinue (atMinute c1 x) n (Time (atMinute c2 x)))
       \<and> parseTime c1 (start m) = atMinute c1 540
       \<and> fst (parseTimeOrCount c2 (endStr m)) = Time (atMinute c2 570)
       \<and> willContinue (addMinutes (atMinute c1 540) 25) 1 (Time (atMinute c2 570))
       \<and> (\<exists>r. planLoop (settings m) (fst (parseTimeOrCount c2 (endStr m)))
                 (initialState (parseTime c1 (start m))) = Some r
             \<and> planLines r = [''- [ ] 09:00 - 09:25 Pomodoro #1\<newline>'']
             \<and> pomodoroCount r - 1 = 1)"
proof -
  have m1: "minutesOfDay ''09:00'' = Some 540" by code_simp
  have m2: "minutesOfDay ''09:30'' = Some 570" by code_simp
  have st: "parseTime c1 (start m) = atMinute c1 540"
    by (simp add: assms(1) parseTime_minutesOfDay m1)
  have en: "fst (parseTimeOrCount c2 (endStr m)) = Time (atMinute c2 570)"
    by (simp add: assms(2) parseTimeOrCount_def parseTime_minutesOfDay m2 atMinute_def)
  define cfg where "cfg = settings m"
  define s0 where "s0 = initialState (atMinute c1 540)"
  have p: "pomodoro cfg = 25" "0 \<le> shortBreak cfg" "0 \<le> longBreak cfg"
    using assms(3-5) by (simp_all add: cfg_def)
  have w1: "willContinue (addMinutes (atMinute c1 540) 25) k (Time (atMinute c2 570))" for k
    unfolding addMinutes_atMinute by (rule atMinute_cmp(1)[OF assms(6)]) simp
  have w2: "\<not> willContinue (addMinutes (atMinute c1 540) (25 + (b + 25))) k
               (Time (atMinute c2 570))" if "0 \<le> b" for b k
    unfolding addMinutes_atMinute by (rule atMinute_cmp(2)[OF assms(6)]) (use that in simp)
  have w3: "\<not> willContinue (addMinutes (atMinute c1 540) (25 + (25 + b))) k
               (Time (atMinute c2 570))" if "0 \<le> b" for b k
    unfolding addMinutes_atMinute by (rule atMinute_cmp(2)[OF assms(6)]) (use that in simp)
  have body: "loopBody cfg (Time (atMinute c2 570)) s0 = Inl (workStep cfg s0)"
    using w1 w2[OF p(3)] w3[OF p(2)]
    by (simp add: loopBody_def s0_def initialState_def workStep_def p(1) addMinutes_add)
  have f: "formatTime (atMinute c1 540) = ''09:00''" "formatTime (atMinute c1 565) = ''09:25''"
    "numToString (Some 1) = ''1''"
    unfolding formatTime_atMinute[of c1 _ 0] by code_simp+
  have lines: "planLines (workStep cfg s0) = [''- [ ] 09:00 - 09:25 Pomodoro #1\<newline>'']"
    by (simp add: workStep_def s0_def initialState_def pomodoroLine_def p(1)
        addMinutes_atMinute f newline_def)
  have "planLoop cfg (Time (atMinute c2 570)) s0 = Some (workStep cfg s0)"
    by (subst planLoop_loopBody) (simp add: body)
  moreover have "pomodoroCount (workStep cfg s0) - 1 = 1"
    by (simp add: workStep_def s0_def initialState_def)
  moreover have "willContinue (atMinute c1 x) n (Time (atMinute c2 x))"
    if "c1 mod msPerMinute \<le> c2 mod msPerMinute"
    using atMinute_le[OF assms(6) that, of x n x] by simp
  ultimately show ?thesis
    using lines w1[of 1] st en by (simp add: cfg_def s0_def)
qed

text \<open>
  Claim C1, amended. With start 09:00, end 5 and the default settings (pomodoro 25, short
  break 5, long break 15, group 4, short break lines off, long break lines on, statistics
  on) the plan has five pomodoro lines, one long break line right after the fourth, no
  short break line, and a statistics block with 5 pomodoros, 2 hours, 5 minutes of work and
  30 minutes of rest: the three short breaks that are not shown count as rest, with the
  long break. This holds for every reading of the clock.
\<close>
theorem example_count_five:
  assumes "start m = ''09:00''" and "endStr m = Some ''5''"
    and "settings m = DEFAULT_SETTINGS" and "resultEl m \<noteq> None"
  shows "fst (parseTimeOrCount c2 (endStr m)) = Count 5
       \<and> (\<exists>r. planLoop (settings m) (Count 5) (initialState (parseTime c1 (start m))) = Some r
            \<and> planLines r =
                [''- [ ] 09:00 - 09:25 Pomodoro #1\<newline>'',
                 ''- [ ] 09:30 - 09:55 Pomodoro #2\<newline>'',
                 ''- [ ] 10:00 - 10:25 Pomodoro #3\<newline>'',
                 ''- [ ] 10:30 - 10:55 Pomodoro #4\<newline>'',
                 ''- [ ] 10:55 - 11:10 Long Break\<newline>'',
                 ''- [ ] 11:10 - 11:35 Pomodoro #5\<newline>'']
            \<and> length (filter isPomodoroLine (planLines r)) = 5
            \<and> filter isBreakLine (planLines r) = [''- [ ] 10:55 - 11:10 Long Break\<newline>'']
            \<and> totalRestTime r = 30)
       \<and> planText (generatePomodoroPlan c1 c2 m) =
           Some (''- [ ] 09:00 - 09:25 Pomodoro #1\<newline>''
               @ ''- [ ] 09:30 - 09:55 Pomodoro #2\<newline>''
               @ ''- [ ] 10:00 - 10:25 Pomodoro #3\<newline>''
               @ ''- [ ] 10:30 - 10:55 Pomodoro #4\<newline>''
               @ ''- [ ] 10:55 - 11:10 Long Break\<newline>''
               @ ''- [ ] 11:10 - 11:35 Pomodoro #5\<newline>''
               @ ''\<newline>\<newline>''
               @ ''  Total pomodoros: 5\<newline>''
               @ ''  Total work time: 2 hours, 5 minutes\<newline>''
               @ ''  Total rest time: 30 minutes\<newline>'')"
proof -
  have m5: "minutesOfDay ''5'' = None" by code_simp
  have i5: "parseInt ''5'' = Some 5" by code_simp
  have pe: "parseTimeOrCount c (endStr m) = (Count 5, [])" for c
    by (simp add: assms(2) parseTimeOrCount_def parseTime_minutesOfDay m5 i5 isNaN_def)
  have g: "generatePomodoroPlan c1 c2 m = generatePomodoroPlan 0 0 m"
    by (rule generate_clock) (simp add: pe)
  have "planText (generatePomodoroPlan 0 0 m)
      = planText (generatePomodoroPlan 0 0 (formOpened ''09:00'' (Some ''5'')))"
    by (rule planText_generate_cong) (simp_all add: assms formOpened_def)
  also have "\<dots> = Some (''- [ ] 09:00 - 09:25 Pomodoro #1\<newline>''
               @ ''- [ ] 09:30 - 09:55 Pomodoro #2\<newline>''
               @ ''- [ ] 10:00 - 10:25 Pomodoro #3\<newline>''
               @ ''- [ ] 10:30 - 10:55 Pomodoro #4\<newline>''
               @ ''- [ ] 10:55 - 11:10 Long Break\<newline>''
               @ ''- [ ] 11:10 - 11:35 Pomodoro #5\<newline>''
               @ ''\<newline>\<newline>''
               @ ''  Total pomodoros: 5\<newline>''
               @ ''  Total work time: 2 hours, 5 minutes\<newline>''
               @ ''  Total rest time: 30 minutes\<newline>'')"
    by code_simp
  finally have pt: "planText (generatePomodoroPlan c1 c2 m) =
           Some (''- [ ] 09:00 - 09:25 Pomodoro #1\<newline>''
               @ ''- [ ] 09:30 - 09:55 Pomodoro #2\<newline>''
               @ ''- [ ] 10:00 - 10:25 Pomodoro #3\<newline>''
               @ ''- [ ] 10:30 - 10:55 Pomodoro #4\<newline>''
               @ ''- [ ] 10:55 - 11:10 Long Break\<newline>''
               @ ''- [ ] 11:10 - 11:35 Pomodoro #5\<newline>''
               @ ''\<newline>\<newline>''
               @ ''  Total pomodoros: 5\<newline>''
               @ ''  Total work time: 2 hours, 5 minutes\<newline>''
               @ ''  Total rest time: 30 minutes\<newline>'')"
    unfolding g .
  have R: "sameButClock c1 0 (initialState (parseTime c1 ''09:00''))
             (initialState (parseTime 0 ''09:00''))"
    by (simp add: sameButClock_def initialState_def sameMinuteOfDay_parseTime)
  have rel: "rel_option (sameButClock c1 0)
      (planLoop DEFAULT_SETTINGS (Count 5) (initialState (parseTime c1 ''09:00'')))
      (planLoop DEFAULT_SETTINGS (Count 5) (initialState (parseTime 0 ''09:00'')))"
    by (rule planLoop_clock[OF R]) simp
  have run0: "planLoop DEFAULT_SETTINGS (Count 5) (initialState (parseTime 0 ''09:00'')) =
      Some \<lparr>currentTime = Some 41700000, groupCount = 1, totalRestTime = 30,
            pomodoroCount = 6,
            planLines =
              [''- [ ] 09:00 - 09:25 Pomodoro #1\<newline>'',
               ''- [ ] 09:30 - 09:55 Pomodoro #2\<newline>'',
               ''- [ ] 10:00 - 10:25 Pomodoro #3\<newline>'',
               ''- [ ] 10:30 - 10:55 Pomodoro #4\<newline>'',
               ''- [ ] 10:55 - 11:10 Long Break\<newline>'',
               ''- [ ] 11:10 - 11:35 Pomodoro #5\<newline>'']\<rparr>"
    by code_simp
  have cnt: "length (filter isPomodoroLine
              [''- [ ] 09:00 - 09:25 Pomodoro #1\<newline>'',
               ''- [ ] 09:30 - 09:55 Pomodoro #2\<newline>'',
               ''- [ ] 10:00 - 10:25 Pomodoro #3\<newline>'',
               ''- [ ] 10:30 - 10:55 Pomodoro #4\<newline>'',
               ''- [ ] 10:55 - 11:10 Long Break\<newline>'',
               ''- [ ] 11:10 - 11:35 Pomodoro #5\<newline>'']) = 5"
    "filter isBreakLine
              [''- [ ] 09:00 - 09:25 Pomodoro #1\<newline>'',
               ''- [ ] 09:30 - 09:55 Pomodoro #2\<newline>'',
               ''- [ ] 10:00 - 10:25 Pomodoro #3\<newline>'',
               ''- [ ] 10:30 - 10:55 Pomodoro #4\<newline>'',
               ''- [ ] 10:55 - 11:10 Long Break\<newline>'',
               ''- [ ] 11:10 - 11:35 Pomodoro #5\<newline>'']
       = [''- [ ] 10:55 - 11:10 Long Break\<newline>'']"
    by code_simp+
  from rel run0 obtain r where
    r: "planLoop DEFAULT_SETTINGS (Count 5) (initialState (parseTime c1 ''09:00'')) = Some r"
    and rr: "sameButClock c1 0 r
      \<lparr>currentTime = Some 41700000, groupCount = 1, totalRestTime = 30,
            pomodoroCount = 6,
            planLines =
              [''- [ ] 09:00 - 09:25 Pomodoro #1\<newline>'',
               ''- [ ] 09:30 - 09:55 Pomodoro #2\<newline>'',
               ''- [ ] 10:00 - 10:25 Pomodoro #3\<newline>'',
               ''- [ ] 10:30 - 10:55 Pomodoro #4\<newline>'',
               ''- [ ] 10:55 - 11:10 Long Break\<newline>'',
               ''- [ ] 11:10 - 11:35 Pomodoro #5\<newline>'']\<rparr>"
    by (cases "planLoop DEFAULT_SETTINGS (Count 5) (initialState (parseTime c1 ''09:00''))")
       simp_all
  from rr have "planLines r =
              [''- [ ] 09:00 - 09:25 Pomodoro #1\<newline>'',
               ''- [ ] 09:30 - 09:55 Pomodoro #2\<newline>'',
               ''- [ ] 10:00 - 10:25 Pomodoro #3\<newline>'',
               ''- [ ] 10:30 - 10:55 Pomodoro #4\<newline>'',
               ''- [ ] 10:55 - 11:10 Long Break\<newline>'',
               ''- [ ] 11:10 - 11:35 Pomodoro #5\<newline>'']" "totalRestTime r = 30"
    by (simp_all add: sameButClock_def)
  with r cnt have "\<exists>r. planLoop (settings m) (Count 5) (initialState (parseTime c1 (start m))) = Some r
            \<and> planLines r =
                [''- [ ] 09:00 - 09:25 Pomodoro #1\<newline>'',
                 ''- [ ] 09:30 - 09:55 Pomodoro #2\<newline>'',
                 ''- [ ] 10:00 - 10:25 Pomodoro #3\<newline>'',
                 ''- [ ] 10:30 - 10:55 Pomodoro #4\<newline>'',
                 ''- [ ] 10:55 - 11:10 Long Break\<newline>'',
                 ''- [ ] 11:10 - 11:35 Pomodoro #5\<newline>'']
            \<and> length (filter isPomodoroLine (planLines r)) = 5
            \<and> filter isBreakLine (planLines r) = [''- [ ] 10:55 - 11:10 Long Break\<newline>'']
            \<and> totalRestTime r = 30"
    unfolding assms(1) assms(3) by (intro exI[of _ r]) (simp only: simp_thms)
  with pt pe[of c2] show ?thesis by (simp only: fst_conv simp_thms)
qed

section \<open>Concrete runs\<close>


theorem work_count_matches_lines_witness:
  "planLoop DEFAULT_SETTINGS (Count 2) (initialState (Some 0)) =
     Some \<lparr>currentTime = Some 3300000, groupCount = 2, totalRestTime = 5, pomodoroCount = 3,
           planLines = [''- [ ] 00:00 - 00:25 Pomodoro #1\<newline>'',
                        ''- [ ] 00:30 - 00:55 Pomodoro #2\<newline>'']\<rparr>
   \<and> length (filter isPomodoroLine
         [''- [ ] 00:00 - 00:25 Pomodoro #1\<newline>'',
          ''- [ ] 00:30 - 00:55 Pomodoro #2\<newline>'']) = 2"
proof -
  have h: "planLoop DEFAULT_SETTINGS (Count 2) (initialState (Some 0)) =
     Some \<lparr>currentTime = Some 3300000, groupCount = 2, totalRestTime = 5, pomodoroCount = 3,
           planLines = [''- [ ] 00:00 - 00:25 Pomodoro #1\<newline>'',
                        ''- [ ] 00:30 - 00:55 Pomodoro #2\<newline>'']\<rparr>"
    by code_simp
  from work_count_matches_lines[OF h] h show ?thesis by simp
qed

theorem count_zero_empty_plan_witness:
  "fst (parseTimeOrCount 0 (endStr (formOpened ''09:00'' (Some ''0'')))) = Count 0
   \<and> resultEl (formOpened ''09:00'' (Some ''0'')) = Some []
   \<and> includeStats (settings (formOpened ''09:00'' (Some ''0'')))
   \<and> generatePomodoroPlan 0 0 (formOpened ''09:00'' (Some ''0'')) =
       Some (Inr ((formOpened ''09:00'' (Some ''0''))\<lparr>resultEl := Some [[]]\<rparr>))"
proof -
  have h: "fst (parseTimeOrCount 0 (endStr (formOpened ''09:00'' (Some ''0'')))) = Count 0"
    by code_simp
  have n: "snd (parseTimeOrCount 0 (endStr (formOpened ''09:00'' (Some ''0'')))) = []"
    by code_simp
  have e: "resultEl (formOpened ''09:00'' (Some ''0'')) = Some []"
    by (simp add: formOpened_def)
  from count_zero_empty_plan[OF h e, of 0] h e n show ?thesis
    by (simp add: formOpened_def DEFAULT_SETTINGS_def)
qed

theorem numeric_edit_discarded_witness:
  "isNaN (parseInt ''xyz'')
   \<and> onChangePomodoro 0 0 ''xyz'' (formOpened ''09:00'' (Some ''5''))
       = Some (Inr (formOpened ''09:00'' (Some ''5'')))
   \<and> onChangeGroup 0 0 ''xyz'' (formOpened ''09:00'' (Some ''5''))
       = Some (Inr (formOpened ''09:00'' (Some ''5'')))"
proof -
  have h: "isNaN (parseInt ''xyz'')" by code_simp
  from numeric_edit_discarded[OF h, of 0 0 "formOpened ''09:00'' (Some ''5'')"] h
  show ?thesis by simp
qed

theorem example_count_five_witness:
  "planText (generatePomodoroPlan 123456 999 (formOpened ''09:00'' (Some ''5''))) =
           Some (''- [ ] 09:00 - 09:25 Pomodoro #1\<newline>''
               @ ''- [ ] 09:30 - 09:55 Pomodoro #2\<newline>''
               @ ''- [ ] 10:00 - 10:25 Pomodoro #3\<newline>''
               @ ''- [ ] 10:30 - 10:55 Pomodoro #4\<newline>''
               @ ''- [ ] 10:55 - 11:10 Long Break\<newline>''
               @ ''- [ ] 11:10 - 11:35 Pomodoro #5\<newline>''
               @ ''\<newline>\<newline>''
               @ ''  Total pomodoros: 5\<newline>''
               @ ''  Total work time: 2 hours, 5 minutes\<newline>''
               @ ''  Total rest time: 30 minutes\<newline>'')"
proof -
  have h: "start (formOpened ''09:00'' (Some ''5'')) = ''09:00''"
    "endStr (formOpened ''09:00'' (Some ''5'')) = Some ''5''"
    "settings (formOpened ''09:00'' (Some ''5'')) = DEFAULT_SETTINGS"
    "resultEl (formOpened ''09:00'' (Some ''5'')) \<noteq> None"
    by (simp_all add: formOpened_def)
  from example_count_five[OF h, of 999 123456] show ?thesis by (elim conjE)
qed

theorem example_count_five_counterexample:
  "planText (generatePomodoroPlan 0 0 (formOpened ''09:00'' (Some ''5''))) \<noteq> None
   \<and> \<not> planContains (generatePomodoroPlan 0 0 (formOpened ''09:00'' (Some ''5'')))
         ''Total rest time: 15 minutes''"
  by code_simp



section \<open>Runs that part from the specification\<close>

text \<open>
  Claim C2. In a zone whose clocks go forward from 02:00 to 03:00, with start 00:00, end
  03:30, a pomodoro of 50 minutes, a short break of 10, a long break of 30 and groups of 2,
  the second pomodoro ends at 01:50 and its look-ahead, 80 minutes on in one step, is
  03:10 and passes; the long break line is written and the break, 30 minutes on, ends at
  03:20; the next test of the loop, 50 minutes on, is 04:10 and fails. The plan ends on the
  long break line.
\<close>
theorem trailing_break_on_clock_change:
  "planLoopOn (zonePlatform \<lparr>stdOffset = 0, transitions = [(7200000, 3600000)]\<rparr>)
     \<lparr>pomodoro = 50, shortBreak = 10, longBreak = 30, group = 2, includeStats = True,
      includeShortBreak = False, includeLongBreak = True\<rparr>
     (fst (parseTimeOrCountOn (zonePlatform \<lparr>stdOffset = 0, transitions = [(7200000, 3600000)]\<rparr>)
             0 (Some ''03:30'')))
     (initialState
        (parseTimeOn (zonePlatform \<lparr>stdOffset = 0, transitions = [(7200000, 3600000)]\<rparr>)
           0 ''00:00''))
   = Some \<lparr>currentTime = Some 8400000, groupCount = 0, totalRestTime = 40, pomodoroCount = 3,
           planLines = [''- [ ] 00:00 - 00:50 Pomodoro #1\<newline>'',
                        ''- [ ] 01:00 - 01:50 Pomodoro #2\<newline>'',
                        ''- [ ] 01:50 - 03:20 Long Break\<newline>'']\<rparr>
   \<and> isBreakLine ''- [ ] 01:50 - 03:20 Long Break\<newline>''
   \<and> \<not> isPomodoroLine ''- [ ] 01:50 - 03:20 Long Break\<newline>''"
  by code_simp

text \<open>
  Claim C6. The start is read with one reading of the clock and the end with another, and
  each keeps the day of its reading. With start 09:00, end 09:30 and the default settings,
  a first reading in the last millisecond of a day and a second in the first of the next
  put the end a day after the start: the look-ahead of the first pass succeeds, the loop
  goes on to a second pass and ends with a work-interval count of 45, where the example has
  a count of 1.
\<close>
theorem example_end_time_across_midnight:
  "loopBody DEFAULT_SETTINGS (fst (parseTimeOrCount 86400000 (Some ''09:30'')))
     (initialState (parseTime 86399999 ''09:00''))
   = Inr \<lparr>currentTime = Some 34259999, groupCount = 1, totalRestTime = 5, pomodoroCount = 2,
          planLines = [''- [ ] 09:00 - 09:25 Pomodoro #1\<newline>'']\<rparr>
   \<and> map_option workIntervalCount
       (planLoop DEFAULT_SETTINGS (fst (parseTimeOrCount 86400000 (Some ''09:30'')))
          (initialState (parseTime 86399999 ''09:00''))) = Some 45"
  by code_simp

text \<open>
  Claim C8. \<open>parseTime\<close> reads the clock on every call and keeps the date, the seconds and
  the milliseconds of the reading, so a plan depends on the two readings of its generation.
  With start 09:00, end 09:25 and the default settings, two readings at 00:00:00.000 give
  one pomodoro, and readings at 00:00:59.999 and 00:01:00.000 give the empty plan, on the
  platform of the first part and on the \<open>Date\<close> of the standard alike. With start 01:00 and
  end 03:30, in a zone whose clocks go forward from 02:00 to 03:00 on the first day, a
  generation on that day gives three pomodoros and a generation ten days later gives four.
\<close>
theorem plan_depends_on_clock:
  "planText (generatePomodoroPlan 0 0 (formOpened ''09:00'' (Some ''09:25'')))
     = Some (''- [ ] 09:00 - 09:25 Pomodoro #1\<newline>''
             @ ''\<newline>\<newline>''
             @ ''  Total pomodoros: 1\<newline>''
             @ ''  Total work time: 25 minutes\<newline>''
             @ ''  Total rest time: 0 minutes\<newline>'')
   \<and> planText (generatePomodoroPlan 59999 60000 (formOpened ''09:00'' (Some ''09:25'')))
     = Some []
   \<and> planText (generatePomodoroPlanOn (zonePlatform \<lparr>stdOffset = 0, transitions = []\<rparr>) 0 0
                 (formOpened ''09:00'' (Some ''09:25'')))
     = Some (''- [ ] 09:00 - 09:25 Pomodoro #1\<newline>''
             @ ''\<newline>\<newline>''
             @ ''  Total pomodoros: 1\<newline>''
             @ ''  Total work time: 25 minutes\<newline>''
             @ ''  Total rest time: 0 minutes\<newline>'')
   \<and> planText (generatePomodoroPlanOn (zonePlatform \<lparr>stdOffset = 0, transitions = []\<rparr>)
                 59999 60000 (formOpened ''09:00'' (Some ''09:25'')))
     = Some []
   \<and> planText (generatePomodoroPlanOn
                 (zonePlatform \<lparr>stdOffset = 0, transitions = [(7200000, 3600000)]\<rparr>) 0 0
                 (formOpened ''01:00'' (Some ''03:30'')))
     = Some (''- [ ] 01:00 - 01:25 Pomodoro #1\<newline>''
             @ ''- [ ] 01:30 - 01:55 Pomodoro #2\<newline>''
             @ ''- [ ] 03:00 - 03:25 Pomodoro #3\<newline>''
             @ ''\<newline>\<newline>''
             @ ''  Total pomodoros: 3\<newline>''
             @ ''  Total work time: 1 hours, 15 minutes\<newline>''
             @ ''  Total rest time: 10 minutes\<newline>'')
   \<and> planText (generatePomodoroPlanOn
                 (zonePlatform \<lparr>stdOffset = 0, transitions = [(7200000, 3600000)]\<rparr>)
                 864000000 864000000 (formOpened ''01:00'' (Some ''03:30'')))
     = Some (''- [ ] 01:00 - 01:25 Pomodoro #1\<newline>''
             @ ''- [ ] 01:30 - 01:55 Pomodoro #2\<newline>''
             @ ''- [ ] 02:00 - 02:25 Pomodoro #3\<newline>''
             @ ''- [ ] 02:30 - 02:55 Pomodoro #4\<newline>''
             @ ''\<newline>\<newline>''
             @ ''  Total pomodoros: 4\<newline>''
             @ ''  Total work time: 1 hours, 40 minutes\<newline>''
             @ ''  Total rest time: 15 minutes\<newline>'')"
  by code_simp

end
